theory Spec2Isabelle
  imports Complex_Main
begin

section \<open>Condition evaluation of the typebot flow engine\<close>

text \<open>
  The repository holds two variants of one evaluator:
  \<^item> \<^verbatim>\<open>src/packages/conditions/src/executeCondition.ts\<close>, whose STRING_SIMILARITY case
    scores candidates by the cosine of their character counts (threshold 0.5);
  \<^item> \<^verbatim>\<open>src/unnamed/part_000\<close>, whose STRING_SIMILARITY case calls \<^verbatim>\<open>compararValores\<close>,
    scoring by a normalised Levenshtein distance (threshold 0.8).
  Outside that case the two files are the same text. Both are embedded below: the first
  under the source's names, the second under the same names with the suffix \<open>_lev\<close>.
  The helpers \<^verbatim>\<open>compare\<close>, \<^verbatim>\<open>parseDateOrNumber\<close> and \<^verbatim>\<open>preprocessRegex\<close>, identical in
  both files character by character, are embedded once.

  A JavaScript exception is a value: every function that can throw returns
  \<open>error + bool\<close>, \<open>Inl\<close> the exception.
\<close>

subsection \<open>Values\<close>

datatype error = TypeError | SyntaxError

text \<open>
  A JavaScript number, as far as the evaluator looks at it: not-a-number, the two
  infinities, or a finite value. A finite double is the real number it denotes, so that
  comparing two numbers is comparing two reals.
\<close>

datatype jsnum = NaN | NegInf | Fin real | PosInf

fun js_gt :: "jsnum \<Rightarrow> jsnum \<Rightarrow> bool" where
  "js_gt NaN y = False"
| "js_gt x NaN = False"
| "js_gt NegInf y = False"
| "js_gt x NegInf = True"
| "js_gt (Fin x) (Fin y) = (y < x)"
| "js_gt (Fin x) PosInf = False"
| "js_gt PosInf PosInf = False"
| "js_gt PosInf (Fin y) = True"

definition js_lt :: "jsnum \<Rightarrow> jsnum \<Rightarrow> bool" where
  "js_lt x y = js_gt y x"

definition isNaN :: "jsnum \<Rightarrow> bool" where
  "isNaN x = (x = NaN)"

text \<open>
  The quotient \<^verbatim>\<open>(maxLength - distancia) / maxLength\<close> of \<^verbatim>\<open>part_000\<close>, with JavaScript's results
  for a zero divisor. For a non-zero divisor it is the exact quotient, and comparing it
  with \<open>4 / 5\<close> is what the code computes when it compares the rounded quotient with the
  double \<^verbatim>\<open>0.8\<close>: the quotient of two integers \<open>p\<close> and \<open>q\<close> is \<open>4 / 5\<close> or differs from it
  by \<open>1 / (5 * q)\<close> at least, which for a string that fits in memory is far more than the
  rounding of a double, and rounding keeps the order.
\<close>

definition js_div :: "real \<Rightarrow> real \<Rightarrow> jsnum" where
  "js_div x y =
     (if y = 0 then (if x = 0 then NaN else if 0 < x then PosInf else NegInf)
      else Fin (x / y))"

text \<open>
  The arithmetic of doubles (IEEE 754 binary64, which ECMAScript prescribes for \<^verbatim>\<open>+\<close>, \<^verbatim>\<open>*\<close>
  and \<^verbatim>\<open>/\<close> and the engines compute for \<^verbatim>\<open>Math.sqrt\<close>) returns the exact result rounded to
  the nearest double, a tie to the double whose last bit is 0. \<open>fl x\<close> is \<open>x\<close> so rounded: a
  double between \<open>2 ^ e\<close> and \<open>2 ^ (e + 1)\<close> is a multiple of \<open>2 ^ (e - 52)\<close>, and \<open>roundEven\<close>
  picks the nearest multiple. The exponent is not bounded here: \<open>fl\<close> is the rounding of
  the machine on the numbers of magnitude \<open>2 ^ -1022\<close> to \<open>2 ^ 1024\<close> and on 0. Every number
  that the cosine score below computes is one of these: a sum of products of character
  counts, the square root of such a sum, the product of two roots, the quotient of a sum
  by that product.
\<close>

definition roundEven :: "real \<Rightarrow> int" where
  "roundEven y =
     (let n = \<lfloor>y\<rfloor>; f = y - of_int n
      in if f < 1 / 2 then n else if 1 / 2 < f then n + 1 else if even n then n else n + 1)"

definition fl :: "real \<Rightarrow> real" where
  "fl x =
     (if x = 0 then 0
      else let ulp = 2 powr (of_int \<lfloor>log 2 \<bar>x\<bar>\<rfloor> - 52)
           in sgn x * of_int (roundEven (\<bar>x\<bar> / ulp)) * ulp)"

text \<open>\<^verbatim>\<open>x / y\<close> on doubles: the quotient, rounded.\<close>

definition js_divide :: "real \<Rightarrow> real \<Rightarrow> jsnum" where
  "js_divide x y = (case js_div x y of Fin q \<Rightarrow> Fin (fl q) | q \<Rightarrow> q)"

text \<open>
  Modelled from the spec: the type \<^verbatim>\<open>Variable\<close> of \<^verbatim>\<open>@typebot.io/variables/schemas\<close> is not
  among the sources. The specification gives a variable an \<^verbatim>\<open>id\<close> and a \<^verbatim>\<open>value\<close> that is a
  string, an array of strings, \<^verbatim>\<open>null\<close> or \<^verbatim>\<open>undefined\<close>. A string is a list of 8-bit
  characters here. \<open>None\<close> in \<open>value_v\<close> is \<^verbatim>\<open>undefined\<close>.
\<close>

datatype jsvalue = Null | Str string | Arr "string list"

record variable =
  id_v :: string
  value_v :: "jsvalue option"

text \<open>
  Modelled from the spec: \<^verbatim>\<open>./constants\<close> and \<^verbatim>\<open>./schemas\<close> are not among the sources.
  The operators are the thirteen cases of the \<^verbatim>\<open>switch\<close> in \<^verbatim>\<open>executeComparison\<close>; a
  comparison has three optional fields, a condition an optional logical operator and an
  optional list of comparisons.
\<close>

datatype comparisonOperator =
    CONTAINS | NOT_CONTAINS | EQUAL | NOT_EQUAL | GREATER | LESS | IS_SET | IS_EMPTY
  | STARTS_WITH | ENDS_WITH | MATCHES_REGEX | NOT_MATCH_REGEX | STRING_SIMILARITY

datatype logicalOperator = AND | OR

record comparison =
  variableId :: "string option"
  comparisonOperator :: "comparisonOperator option"
  value_c :: "string option"

record condition =
  logicalOperator :: "logicalOperator option"
  comparisons :: "comparison list option"

subsection \<open>What the evaluator calls and the sources do not hold\<close>

text \<open>
  The evaluator calls two functions of the package \<^verbatim>\<open>@typebot.io/variables\<close>, which is not
  among the sources, and built-in functions of JavaScript. They are the fields of a
  record that every function below takes as its first argument, so that a theorem about
  \<open>E\<close> holds whatever these functions compute:
  \<^item> \<open>findUniqueVariable\<close> and \<open>parseVariables\<close>, the variable resolver and the text
    interpolation of the specification (\<open>None\<close> as result is \<^verbatim>\<open>null\<close>, \<open>None\<close> as text is
    \<^verbatim>\<open>undefined\<close>);
  \<^item> \<open>toLowerCase\<close>, \<open>trim\<close> and \<open>normalize_s\<close>, the methods of \<^verbatim>\<open>String\<close>;
  \<^item> \<open>Number_s\<close>, the conversion \<^verbatim>\<open>Number(s)\<close> of a string, and \<open>Date_parse\<close>;
  \<^item> \<open>RegExp_new\<close>, the constructor \<^verbatim>\<open>new RegExp(pattern, flags)\<close>: it throws, or gives an
    object whose method \<^verbatim>\<open>test\<close> is the function returned.
\<close>

record runtime =
  findUniqueVariable :: "variable list \<Rightarrow> string option \<Rightarrow> variable option"
  parseVariables :: "variable list \<Rightarrow> string option \<Rightarrow> string"
  toLowerCase :: "string \<Rightarrow> string"
  trim :: "string \<Rightarrow> string"
  normalize_s :: "string \<Rightarrow> string"
  Number_s :: "string \<Rightarrow> jsnum"
  Date_parse :: "string \<Rightarrow> jsnum"
  RegExp_new :: "string \<Rightarrow> string option \<Rightarrow> error + (string \<Rightarrow> bool)"

text \<open>The methods \<^verbatim>\<open>startsWith\<close>, \<^verbatim>\<open>includes\<close>, \<^verbatim>\<open>endsWith\<close> and \<^verbatim>\<open>split\<close> of \<^verbatim>\<open>String\<close>.\<close>

fun startsWith :: "string \<Rightarrow> string \<Rightarrow> bool" where
  "startsWith a [] = True"
| "startsWith [] (y # ys) = False"
| "startsWith (x # xs) (y # ys) = (x = y \<and> startsWith xs ys)"

fun includes_s :: "string \<Rightarrow> string \<Rightarrow> bool" where
  "includes_s [] b = (b = [])"
| "includes_s (x # xs) b = (startsWith (x # xs) b \<or> includes_s xs b)"

definition endsWith :: "string \<Rightarrow> string \<Rightarrow> bool" where
  "endsWith a b = startsWith (rev a) (rev b)"

fun split :: "string \<Rightarrow> char \<Rightarrow> string list" where
  "split [] d = [[]]"
| "split (c # cs) d =
     (if c = d then [] # split cs d
      else (case split cs d of [] \<Rightarrow> [[c]] | w # ws \<Rightarrow> (c # w) # ws))"

text \<open>
  \<^verbatim>\<open>Array.prototype.every\<close> and \<^verbatim>\<open>some\<close> with a callback that may throw: the elements are
  visited in order, the visit stops at the first element that decides the result, and
  an exception of the callback ends the call.
\<close>

fun every :: "('a \<Rightarrow> error + bool) \<Rightarrow> 'a list \<Rightarrow> error + bool" where
  "every f [] = Inr True"
| "every f (x # xs) =
     (case f x of Inl e \<Rightarrow> Inl e | Inr b \<Rightarrow> if b then every f xs else Inr False)"

fun some :: "('a \<Rightarrow> error + bool) \<Rightarrow> 'a list \<Rightarrow> error + bool" where
  "some f [] = Inr False"
| "some f (x # xs) =
     (case f x of Inl e \<Rightarrow> Inl e | Inr b \<Rightarrow> if b then Inr True else some f xs)"

text \<open>
  Truthiness of a \<^verbatim>\<open>string | null\<close>: \<^verbatim>\<open>!a\<close> holds of \<^verbatim>\<open>null\<close>, \<^verbatim>\<open>undefined\<close> and the empty
  string.
\<close>

fun falsy :: "string option \<Rightarrow> bool" where
  "falsy None = True"
| "falsy (Some s) = (s = [])"

text \<open>\<^verbatim>\<open>isNotDefined\<close> and \<^verbatim>\<open>isDefined\<close> of \<^verbatim>\<open>@typebot.io/lib/utils\<close>, on a value that is not \<^verbatim>\<open>undefined\<close>.\<close>

definition isNotDefined :: "jsvalue \<Rightarrow> bool" where
  "isNotDefined v = (v = Null)"

definition isDefined :: "jsvalue \<Rightarrow> bool" where
  "isDefined v = (v \<noteq> Null)"

text \<open>The property \<^verbatim>\<open>length\<close> of a string or an array.\<close>

fun length_v :: "jsvalue \<Rightarrow> nat" where
  "length_v Null = 0"
| "length_v (Str s) = length s"
| "length_v (Arr xs) = length xs"

subsection \<open>\<^verbatim>\<open>compare\<close>: broadcasting a predicate over scalars and arrays\<close>

datatype reduceType = TypeEvery | TypeSome

fun isArray :: "jsvalue \<Rightarrow> bool" where
  "isArray (Arr xs) = True"
| "isArray v = False"

text \<open>
  The scalar an operand hands to the callback (\<^verbatim>\<open>null\<close> is \<open>None\<close>) and the elements of an
  array operand. \<open>compare\<close> reads \<open>scalarOf\<close> only of an operand that is no array and
  \<open>elements\<close> only of one that is.
\<close>

fun scalarOf :: "jsvalue \<Rightarrow> string option" where
  "scalarOf (Str s) = Some s"
| "scalarOf v = None"

fun elements :: "jsvalue \<Rightarrow> string list" where
  "elements (Arr xs) = xs"
| "elements v = []"

definition compare ::
  "(string option \<Rightarrow> string option \<Rightarrow> error + bool) \<Rightarrow> jsvalue \<Rightarrow> jsvalue \<Rightarrow> reduceType
     \<Rightarrow> error + bool" where
  "compare compareStrings a b type =
     (if \<not> isArray a then
        (if \<not> isArray b then compareStrings (scalarOf a) (scalarOf b)
         else if type = TypeEvery
           then every (\<lambda>b'. compareStrings (scalarOf a) (Some b')) (elements b)
           else some (\<lambda>b'. compareStrings (scalarOf a) (Some b')) (elements b))
      else if \<not> isArray b then
        (if type = TypeEvery
           then every (\<lambda>a'. compareStrings (Some a') (scalarOf b)) (elements a)
           else some (\<lambda>a'. compareStrings (Some a') (scalarOf b)) (elements a))
      else if type = TypeEvery
        then every (\<lambda>a'. every (\<lambda>b'. compareStrings (Some a') (Some b')) (elements b))
               (elements a)
        else some (\<lambda>a'. some (\<lambda>b'. compareStrings (Some a') (Some b')) (elements b))
               (elements a))"

subsection \<open>\<^verbatim>\<open>parseDateOrNumber\<close> and \<^verbatim>\<open>preprocessRegex\<close>\<close>

definition parseDateOrNumber :: "runtime \<Rightarrow> string \<Rightarrow> jsnum" where
  "parseDateOrNumber E v =
     (let parsed = Number_s E v in
      if isNaN parsed then Date_parse E v else parsed)"

text \<open>
  \<^verbatim>\<open>regex.match(/\/(.+)\/([gimuy]*)$/)\<close>: the leftmost slash after which a longest run of
  one or more characters other than line terminators is followed by a slash and by
  flag letters up to the end of the text. \<open>matchBody\<close> matches
  \<^verbatim>\<open>(.+)\/([gimuy]*)$\<close> at the head of its argument, the longer group first;
  \<open>matchRegexLiteral\<close> tries the start positions from left to right. The result is the
  pair of the two groups.
\<close>

definition lineTerminator :: "char \<Rightarrow> bool" where
  "lineTerminator c = (c = CHR 0x0A \<or> c = CHR 0x0D)"

definition flagLetter :: "char \<Rightarrow> bool" where
  "flagLetter c = (c \<in> set ''gimuy'')"

fun matchBody :: "string \<Rightarrow> (string \<times> string) option" where
  "matchBody [] = None"
| "matchBody (c # cs) =
     (if lineTerminator c then None
      else (case matchBody cs of
              Some (p, f) \<Rightarrow> Some (c # p, f)
            | None \<Rightarrow>
                (case cs of
                   [] \<Rightarrow> None
                 | d # fs \<Rightarrow>
                     if d = CHR ''/'' \<and> list_all flagLetter fs then Some ([c], fs)
                     else None)))"

fun matchRegexLiteral :: "string \<Rightarrow> (string \<times> string) option" where
  "matchRegexLiteral [] = None"
| "matchRegexLiteral (c # cs) =
     (if c = CHR ''/'' then
        (case matchBody cs of Some r \<Rightarrow> Some r | None \<Rightarrow> matchRegexLiteral cs)
      else matchRegexLiteral cs)"

record regexParts =
  pattern :: string
  flags :: "string option"

definition preprocessRegex :: "string \<Rightarrow> regexParts" where
  "preprocessRegex regex =
     (case matchRegexLiteral regex of
        Some (p, f) \<Rightarrow> \<lparr>pattern = p, flags = Some f\<rparr>
      | None \<Rightarrow> \<lparr>pattern = regex, flags = None\<rparr>)"

subsection \<open>The predicates handed to \<^verbatim>\<open>compare\<close>\<close>

text \<open>
  The string a callback reads from an operand once its guards have excluded \<^verbatim>\<open>null\<close>;
  \<open>lowered\<close> is \<^verbatim>\<open>a.toLowerCase().trim().normalize()\<close>.
\<close>

fun stringOf :: "string option \<Rightarrow> string" where
  "stringOf (Some s) = s"
| "stringOf None = []"

definition lowered :: "runtime \<Rightarrow> string \<Rightarrow> string" where
  "lowered E a = normalize_s E (trim E (toLowerCase E a))"

text \<open>\<^verbatim>\<open>equal\<close> of the case CONTAINS and \<^verbatim>\<open>notEqual\<close> of the case NOT_CONTAINS.\<close>

definition equal :: "runtime \<Rightarrow> string option \<Rightarrow> string option \<Rightarrow> bool" where
  "equal E a b =
     (case (a, b) of
        (Some x, Some y) \<Rightarrow> normalize_s E x = normalize_s E y
      | _ \<Rightarrow> a \<noteq> b)"

definition notEqual :: "runtime \<Rightarrow> string option \<Rightarrow> string option \<Rightarrow> bool" where
  "notEqual E a b =
     (case (a, b) of
        (Some x, Some y) \<Rightarrow> normalize_s E x \<noteq> normalize_s E y
      | _ \<Rightarrow> a \<noteq> b)"

definition contains :: "runtime \<Rightarrow> string option \<Rightarrow> string option \<Rightarrow> bool" where
  "contains E a b =
     (if b = Some [] \<or> falsy b \<or> falsy a then False
      else includes_s (lowered E (stringOf a)) (lowered E (stringOf b)))"

definition notContains :: "runtime \<Rightarrow> string option \<Rightarrow> string option \<Rightarrow> bool" where
  "notContains E a b =
     (if b = Some [] \<or> falsy b \<or> falsy a then True
      else \<not> includes_s (lowered E (stringOf a)) (lowered E (stringOf b)))"

text \<open>The arrow functions of the cases EQUAL and NOT_EQUAL.\<close>

definition equal_op :: "runtime \<Rightarrow> string option \<Rightarrow> string option \<Rightarrow> bool" where
  "equal_op E a b =
     (case (a, b) of
        (Some x, Some y) \<Rightarrow> normalize_s E x = normalize_s E y
      | _ \<Rightarrow> a = b)"

definition notEqual_op :: "runtime \<Rightarrow> string option \<Rightarrow> string option \<Rightarrow> bool" where
  "notEqual_op E a b =
     (case (a, b) of
        (Some x, Some y) \<Rightarrow> normalize_s E x \<noteq> normalize_s E y
      | _ \<Rightarrow> a \<noteq> b)"

text \<open>\<^verbatim>\<open>startsWith\<close> and \<^verbatim>\<open>endsWith\<close> of the cases STARTS_WITH and ENDS_WITH.\<close>

definition startsWith_cb :: "runtime \<Rightarrow> string option \<Rightarrow> string option \<Rightarrow> bool" where
  "startsWith_cb E a b =
     (if b = Some [] \<or> falsy b \<or> falsy a then False
      else startsWith (lowered E (stringOf a)) (lowered E (stringOf b)))"

definition endsWith_cb :: "runtime \<Rightarrow> string option \<Rightarrow> string option \<Rightarrow> bool" where
  "endsWith_cb E a b =
     (if b = Some [] \<or> falsy b \<or> falsy a then False
      else endsWith (lowered E (stringOf a)) (lowered E (stringOf b)))"

text \<open>
  \<^verbatim>\<open>matchesRegex\<close> of the case MATCHES_REGEX, and the function of the same name of the
  case NOT_MATCH_REGEX (here \<open>matchesRegex_not\<close>). The constructor's exception is not
  caught.
\<close>

definition matchesRegex :: "runtime \<Rightarrow> string option \<Rightarrow> string option \<Rightarrow> error + bool" where
  "matchesRegex E a b =
     (if b = Some [] \<or> falsy b \<or> falsy a then Inr False
      else
        let regex = preprocessRegex (stringOf b) in
        if pattern regex = [] then Inr False
        else (case RegExp_new E (pattern regex) (flags regex) of
                Inl e \<Rightarrow> Inl e
              | Inr test \<Rightarrow> Inr (test (stringOf a))))"

definition matchesRegex_not :: "runtime \<Rightarrow> string option \<Rightarrow> string option \<Rightarrow> error + bool" where
  "matchesRegex_not E a b =
     (if b = Some [] \<or> falsy b \<or> falsy a then Inr False
      else
        let regex = preprocessRegex (stringOf b) in
        if pattern regex = [] then Inr True
        else (case RegExp_new E (pattern regex) (flags regex) of
                Inl e \<Rightarrow> Inl e
              | Inr test \<Rightarrow> Inr (\<not> test (stringOf a))))"

subsection \<open>Cosine similarity of character counts (\<^verbatim>\<open>executeCondition.ts\<close>)\<close>

text \<open>
  A JavaScript object used as a dictionary from characters is an association list in
  insertion order. \<open>setKey\<close> is the assignment \<^verbatim>\<open>o[k] = v\<close>. \<open>ownKeys\<close> is the order in
  which \<^verbatim>\<open>for (k in o)\<close> visits the keys: the keys that are array indices (the digits)
  in ascending order, then the others in insertion order.
\<close>

fun setKey :: "char \<Rightarrow> 'v \<Rightarrow> (char \<times> 'v) list \<Rightarrow> (char \<times> 'v) list" where
  "setKey k v [] = [(k, v)]"
| "setKey k v (p # ps) = (if fst p = k then (k, v) # ps else p # setKey k v ps)"

definition isIndexKey :: "char \<Rightarrow> bool" where
  "isIndexKey c = (c \<in> set ''0123456789'')"

definition ownKeys :: "(char \<times> 'v) list \<Rightarrow> char list" where
  "ownKeys obj =
     sort_key (of_char :: char \<Rightarrow> nat) (filter isIndexKey (map fst obj))
       @ filter (\<lambda>c. \<not> isIndexKey c) (map fst obj)"

definition getBagOfNumbers :: "runtime \<Rightarrow> string \<Rightarrow> (char \<times> nat) list" where
  "getBagOfNumbers E str =
     foldl (\<lambda>bag c. case map_of bag c of
                       Some n \<Rightarrow> setKey c (n + 1) bag
                     | None \<Rightarrow> setKey c 1 bag)
       [] (toLowerCase E str)"

text \<open>
  \<^verbatim>\<open>bag[char] || 0\<close>. A count is a natural number: it is at most the length of the string,
  which is below \<open>2 ^ 53\<close>, and counting by one is exact there.
\<close>

definition countOf :: "(char \<times> nat) list \<Rightarrow> char \<Rightarrow> nat" where
  "countOf bag c = (case map_of bag c of Some n \<Rightarrow> n | None \<Rightarrow> 0)"

text \<open>
  The functions handed to \<^verbatim>\<open>reduce\<close>: \<^verbatim>\<open>(sum, val, idx) => sum + val * vec2[idx]\<close>, where
  \<open>val2\<close> is \<^verbatim>\<open>vec2[idx]\<close>, and \<^verbatim>\<open>(sum, val) => sum + val * val\<close>, with \<open>acc\<close> for \<^verbatim>\<open>sum\<close>. Their
  sums and products are those of doubles.
\<close>

definition dotStep :: "real \<Rightarrow> nat \<times> nat \<Rightarrow> real" where
  "dotStep acc p = (case p of (val, val2) \<Rightarrow> fl (acc + fl (real val * real val2)))"

definition squareStep :: "real \<Rightarrow> nat \<Rightarrow> real" where
  "squareStep acc val = fl (acc + fl (real val * real val))"

text \<open>
  \<^verbatim>\<open>compareStringsBagOfNumbers\<close>: \<^verbatim>\<open>vec1\<close> and \<^verbatim>\<open>vec2\<close> have one entry for each key of
  \<^verbatim>\<open>allChars\<close>, so that \<^verbatim>\<open>vec2[idx]\<close> is defined for every index of \<^verbatim>\<open>vec1\<close>.
\<close>

definition compareStringsBagOfNumbers :: "runtime \<Rightarrow> string \<Rightarrow> string \<Rightarrow> jsnum" where
  "compareStringsBagOfNumbers E str1 str2 =
     (let bag1 = getBagOfNumbers E str1;
          bag2 = getBagOfNumbers E str2;
          allChars = foldl (\<lambda>obj c. setKey c True obj)
                       (foldl (\<lambda>obj c. setKey c True obj) [] (ownKeys bag1)) (ownKeys bag2);
          vec1 = map (countOf bag1) (ownKeys allChars);
          vec2 = map (countOf bag2) (ownKeys allChars);
          dotProduct = foldl dotStep 0 (zip vec1 vec2);
          magnitude1 = fl (sqrt (foldl squareStep 0 vec1));
          magnitude2 = fl (sqrt (foldl squareStep 0 vec2))
      in if magnitude1 = 0 \<or> magnitude2 = 0 then Fin 0
         else js_divide dotProduct (fl (magnitude1 * magnitude2)))"

text \<open>
  The loop \<^verbatim>\<open>for (const val of values)\<close> of the case STRING_SIMILARITY; its state is
  \<^verbatim>\<open>maxSimilarity\<close>.
\<close>

fun similarityLoop :: "(string \<Rightarrow> jsnum) \<Rightarrow> string list \<Rightarrow> jsnum \<Rightarrow> jsnum" where
  "similarityLoop score [] maxSimilarity = maxSimilarity"
| "similarityLoop score (val # values) maxSimilarity =
     (let similarity = score val in
      similarityLoop score values
        (if js_gt similarity maxSimilarity then similarity else maxSimilarity))"

text \<open>
  The body of the case STRING_SIMILARITY. \<^verbatim>\<open>value.split\<close> is called on whatever \<^verbatim>\<open>value\<close>
  is: on \<^verbatim>\<open>null\<close> and on an array the call throws a \<^verbatim>\<open>TypeError\<close>.
\<close>

definition stringSimilarity :: "runtime \<Rightarrow> jsvalue \<Rightarrow> jsvalue \<Rightarrow> error + bool" where
  "stringSimilarity E inputValue value_rhs =
     (case inputValue of
        Str s \<Rightarrow>
          (case value_rhs of
             Str t \<Rightarrow>
               Inr (js_gt (similarityLoop (compareStringsBagOfNumbers E s)
                             (split t CHR ''|'') (Fin 0)) (Fin 0.5))
           | _ \<Rightarrow> Inl TypeError)
      | _ \<Rightarrow> Inr False)"

subsection \<open>\<^verbatim>\<open>executeComparison\<close> and \<^verbatim>\<open>executeCondition\<close> (\<^verbatim>\<open>executeCondition.ts\<close>)\<close>

text \<open>
  The constants \<^verbatim>\<open>inputValue\<close>, which is
  \<^verbatim>\<open>variables.find((v) => v.id === comparison.variableId)?.value ?? null\<close>, and \<^verbatim>\<open>value\<close>,
  the right-hand side.
\<close>

definition resolveInputValue :: "variable list \<Rightarrow> string \<Rightarrow> jsvalue" where
  "resolveInputValue variables vid =
     (case find (\<lambda>v. id_v v = vid) variables of
        None \<Rightarrow> Null
      | Some v \<Rightarrow> (case value_v v of None \<Rightarrow> Null | Some x \<Rightarrow> x))"

definition resolveValue :: "runtime \<Rightarrow> variable list \<Rightarrow> string option \<Rightarrow> jsvalue" where
  "resolveValue E variables cv =
     (if cv = Some ''undefined'' \<or> cv = Some ''null'' then Null
      else (case findUniqueVariable E variables cv of
              None \<Rightarrow> Str (parseVariables E variables cv)
            | Some v \<Rightarrow>
                (case value_v v of
                   None \<Rightarrow> Str (parseVariables E variables cv)
                 | Some Null \<Rightarrow> Str (parseVariables E variables cv)
                 | Some x \<Rightarrow> x)))"

text \<open>The \<^verbatim>\<open>switch\<close> on the operator.\<close>

fun switchOperator ::
  "runtime \<Rightarrow> comparisonOperator \<Rightarrow> jsvalue \<Rightarrow> jsvalue \<Rightarrow> error + bool" where
  "switchOperator E CONTAINS a b =
     (if isArray a then compare (\<lambda>x y. Inr (equal E x y)) a b TypeSome
      else compare (\<lambda>x y. Inr (contains E x y)) a b TypeSome)"
| "switchOperator E NOT_CONTAINS a b =
     (if isArray a then compare (\<lambda>x y. Inr (notEqual E x y)) a b TypeEvery
      else compare (\<lambda>x y. Inr (notContains E x y)) a b TypeEvery)"
| "switchOperator E EQUAL a b = compare (\<lambda>x y. Inr (equal_op E x y)) a b TypeEvery"
| "switchOperator E NOT_EQUAL a b = compare (\<lambda>x y. Inr (notEqual_op E x y)) a b TypeEvery"
| "switchOperator E GREATER a b =
     (if isNotDefined a \<or> isNotDefined b then Inr False
      else (case a of
              Str s \<Rightarrow>
                (case b of
                   Str t \<Rightarrow> Inr (js_gt (parseDateOrNumber E s) (parseDateOrNumber E t))
                 | _ \<Rightarrow> Inr (js_gt (Number_s E s) (Fin (real (length_v b)))))
            | _ \<Rightarrow>
                (case b of
                   Str t \<Rightarrow> Inr (js_gt (Fin (real (length_v a))) (Number_s E t))
                 | _ \<Rightarrow> Inr (js_gt (Fin (real (length_v a))) (Fin (real (length_v b)))))))"
| "switchOperator E LESS a b =
     (if isNotDefined a \<or> isNotDefined b then Inr False
      else (case a of
              Str s \<Rightarrow>
                (case b of
                   Str t \<Rightarrow> Inr (js_lt (parseDateOrNumber E s) (parseDateOrNumber E t))
                 | _ \<Rightarrow> Inr (js_lt (Number_s E s) (Fin (real (length_v b)))))
            | _ \<Rightarrow>
                (case b of
                   Str t \<Rightarrow> Inr (js_lt (Fin (real (length_v a))) (Number_s E t))
                 | _ \<Rightarrow> Inr (js_lt (Fin (real (length_v a))) (Fin (real (length_v b)))))))"
| "switchOperator E IS_SET a b = Inr (isDefined a \<and> 0 < length_v a)"
| "switchOperator E IS_EMPTY a b = Inr (isNotDefined a \<or> length_v a = 0)"
| "switchOperator E STARTS_WITH a b = compare (\<lambda>x y. Inr (startsWith_cb E x y)) a b TypeEvery"
| "switchOperator E ENDS_WITH a b = compare (\<lambda>x y. Inr (endsWith_cb E x y)) a b TypeEvery"
| "switchOperator E MATCHES_REGEX a b = compare (matchesRegex E) a b TypeSome"
| "switchOperator E NOT_MATCH_REGEX a b = compare (matchesRegex_not E) a b TypeEvery"
| "switchOperator E STRING_SIMILARITY a b = stringSimilarity E a b"

definition executeComparison :: "runtime \<Rightarrow> variable list \<Rightarrow> comparison \<Rightarrow> error + bool" where
  "executeComparison E variables comparison =
     (if falsy (variableId comparison) then Inr False
      else (case comparisonOperator comparison of
              None \<Rightarrow> Inr False
            | Some operator \<Rightarrow>
                switchOperator E operator
                  (resolveInputValue variables (stringOf (variableId comparison)))
                  (resolveValue E variables (value_c comparison))))"

definition executeCondition :: "runtime \<Rightarrow> condition \<Rightarrow> variable list \<Rightarrow> error + bool" where
  "executeCondition E condition variables =
     (case comparisons condition of
        None \<Rightarrow> Inr False
      | Some cs \<Rightarrow>
          if logicalOperator condition = Some AND
          then every (executeComparison E variables) cs
          else some (executeComparison E variables) cs)"

subsection \<open>The variant \<^verbatim>\<open>src/unnamed/part_000\<close>: normalised Levenshtein distance\<close>

text \<open>
  \<^verbatim>\<open>levenshtein\<close> fills a matrix of \<open>m + 1\<close> rows and \<open>n + 1\<close> columns by loops, each a
  \<open>foldl\<close> over the values of its counter. \<open>setCell\<close> is \<^verbatim>\<open>matrix[i][j] = v\<close>. The
  matrix is created full of \<^verbatim>\<open>null\<close>, which is \<open>0\<close> here (as \<^verbatim>\<open>null\<close> is in JavaScript's
  arithmetic); every cell is written before it is read, and every index is in range.
  \<^item> \<open>initMatrix\<close> is the creation of the matrix and the two loops that write its first
    column and its first row;
  \<^item> \<open>fillCell\<close> is the body of the innermost loop, \<open>fillRow\<close> the loop over \<open>j\<close> for one
    \<open>i\<close>, and \<open>levenshtein\<close> runs the loop over \<open>i\<close> and reads the last cell.
\<close>

definition setCell :: "nat list list \<Rightarrow> nat \<Rightarrow> nat \<Rightarrow> nat \<Rightarrow> nat list list" where
  "setCell matrix i j v = matrix[i := (matrix ! i)[j := v]]"

definition initMatrix :: "nat \<Rightarrow> nat \<Rightarrow> nat list list" where
  "initMatrix m n =
     foldl (\<lambda>matrix j. setCell matrix 0 j j)
       (foldl (\<lambda>matrix i. setCell matrix i 0 i)
          (replicate (m + 1) (replicate (n + 1) 0)) [0..<m + 1])
       [0..<n + 1]"

definition fillCell :: "string \<Rightarrow> string \<Rightarrow> nat \<Rightarrow> nat list list \<Rightarrow> nat \<Rightarrow> nat list list" where
  "fillCell str1 str2 i matrix j =
     (let costoSustitucion = (if str1 ! (i - 1) = str2 ! (j - 1) then 0 else 1) in
      setCell matrix i j
        (min (min (matrix ! (i - 1) ! j + 1) (matrix ! i ! (j - 1) + 1))
           (matrix ! (i - 1) ! (j - 1) + costoSustitucion)))"

definition fillRow :: "string \<Rightarrow> string \<Rightarrow> nat \<Rightarrow> nat list list \<Rightarrow> nat \<Rightarrow> nat list list" where
  "fillRow str1 str2 n matrix i = foldl (fillCell str1 str2 i) matrix [1..<n + 1]"

definition levenshtein :: "string \<Rightarrow> string \<Rightarrow> nat" where
  "levenshtein str1 str2 =
     (let m = length str1;
          n = length str2;
          matrix = foldl (fillRow str1 str2 n) (initMatrix m n) [1..<m + 1]
      in matrix ! m ! n)"

definition compareStringsBagOfNumbers_lev :: "string \<Rightarrow> string \<Rightarrow> jsnum" where
  "compareStringsBagOfNumbers_lev str1 str2 =
     (let distancia = levenshtein str1 str2;
          maxLength = max (length str1) (length str2)
      in js_div (real maxLength - real distancia) (real maxLength))"

text \<open>\<^verbatim>\<open>compararValores\<close>; its calls of \<^verbatim>\<open>console.log\<close> are left out.\<close>

definition compararValores :: "jsvalue \<Rightarrow> jsvalue \<Rightarrow> bool" where
  "compararValores inputValue value_rhs =
     (case inputValue of
        Str s \<Rightarrow>
          (case value_rhs of
             Str t \<Rightarrow>
               if t \<noteq> [] then
                 js_gt (similarityLoop (compareStringsBagOfNumbers_lev s)
                          (split t CHR ''|'') (Fin 0)) (Fin 0.8)
               else False
           | _ \<Rightarrow> False)
      | _ \<Rightarrow> False)"

fun switchOperator_lev ::
  "runtime \<Rightarrow> comparisonOperator \<Rightarrow> jsvalue \<Rightarrow> jsvalue \<Rightarrow> error + bool" where
  "switchOperator_lev E CONTAINS a b =
     (if isArray a then compare (\<lambda>x y. Inr (equal E x y)) a b TypeSome
      else compare (\<lambda>x y. Inr (contains E x y)) a b TypeSome)"
| "switchOperator_lev E NOT_CONTAINS a b =
     (if isArray a then compare (\<lambda>x y. Inr (notEqual E x y)) a b TypeEvery
      else compare (\<lambda>x y. Inr (notContains E x y)) a b TypeEvery)"
| "switchOperator_lev E EQUAL a b = compare (\<lambda>x y. Inr (equal_op E x y)) a b TypeEvery"
| "switchOperator_lev E NOT_EQUAL a b =
     compare (\<lambda>x y. Inr (notEqual_op E x y)) a b TypeEvery"
| "switchOperator_lev E GREATER a b =
     (if isNotDefined a \<or> isNotDefined b then Inr False
      else (case a of
              Str s \<Rightarrow>
                (case b of
                   Str t \<Rightarrow> Inr (js_gt (parseDateOrNumber E s) (parseDateOrNumber E t))
                 | _ \<Rightarrow> Inr (js_gt (Number_s E s) (Fin (real (length_v b)))))
            | _ \<Rightarrow>
                (case b of
                   Str t \<Rightarrow> Inr (js_gt (Fin (real (length_v a))) (Number_s E t))
                 | _ \<Rightarrow> Inr (js_gt (Fin (real (length_v a))) (Fin (real (length_v b)))))))"
| "switchOperator_lev E LESS a b =
     (if isNotDefined a \<or> isNotDefined b then Inr False
      else (case a of
              Str s \<Rightarrow>
                (case b of
                   Str t \<Rightarrow> Inr (js_lt (parseDateOrNumber E s) (parseDateOrNumber E t))
                 | _ \<Rightarrow> Inr (js_lt (Number_s E s) (Fin (real (length_v b)))))
            | _ \<Rightarrow>
                (case b of
                   Str t \<Rightarrow> Inr (js_lt (Fin (real (length_v a))) (Number_s E t))
                 | _ \<Rightarrow> Inr (js_lt (Fin (real (length_v a))) (Fin (real (length_v b)))))))"
| "switchOperator_lev E IS_SET a b = Inr (isDefined a \<and> 0 < length_v a)"
| "switchOperator_lev E IS_EMPTY a b = Inr (isNotDefined a \<or> length_v a = 0)"
| "switchOperator_lev E STARTS_WITH a b =
     compare (\<lambda>x y. Inr (startsWith_cb E x y)) a b TypeEvery"
| "switchOperator_lev E ENDS_WITH a b =
     compare (\<lambda>x y. Inr (endsWith_cb E x y)) a b TypeEvery"
| "switchOperator_lev E MATCHES_REGEX a b = compare (matchesRegex E) a b TypeSome"
| "switchOperator_lev E NOT_MATCH_REGEX a b = compare (matchesRegex_not E) a b TypeEvery"
| "switchOperator_lev E STRING_SIMILARITY a b = Inr (compararValores a b)"

definition executeComparison_lev ::
  "runtime \<Rightarrow> variable list \<Rightarrow> comparison \<Rightarrow> error + bool" where
  "executeComparison_lev E variables comparison =
     (if falsy (variableId comparison) then Inr False
      else (case comparisonOperator comparison of
              None \<Rightarrow> Inr False
            | Some operator \<Rightarrow>
                switchOperator_lev E operator
                  (resolveInputValue variables (stringOf (variableId comparison)))
                  (resolveValue E variables (value_c comparison))))"

definition executeCondition_lev ::
  "runtime \<Rightarrow> condition \<Rightarrow> variable list \<Rightarrow> error + bool" where
  "executeCondition_lev E condition variables =
     (case comparisons condition of
        None \<Rightarrow> Inr False
      | Some cs \<Rightarrow>
          if logicalOperator condition = Some AND
          then every (executeComparison_lev E variables) cs
          else some (executeComparison_lev E variables) cs)"

subsection \<open>A runtime for the examples\<close>

text \<open>
  The closed examples below need a runtime that computes. \<open>sampleRuntime\<close> is what
  JavaScript and the variables package compute on the texts of the examples, which are
  made of ASCII letters, digits, blanks and \<^verbatim>\<open>|\<close>:
  \<^item> Modelled from the spec: \<^verbatim>\<open>findUniqueVariable\<close> and \<^verbatim>\<open>parseVariables\<close> are not among
    the sources. For a text that names no variable and holds no placeholder the resolver
    finds nothing and the interpolation returns the text (the empty text for
    \<^verbatim>\<open>undefined\<close>);
  \<^item> \<open>toLowerCase\<close> lowers the letters A to Z, \<open>trim\<close> removes the blanks of ASCII at both
    ends, \<open>normalize\<close> changes nothing (ASCII text is in normal form);
  \<^item> \<open>Number\<close> reads a text that is blank (as 0) or a run of decimal digits between
    blanks, and answers \<open>NaN\<close> otherwise; \<open>Date.parse\<close> answers \<open>NaN\<close>: no example holds a
    date, a sign, a fraction, an exponent or a numeral in another base;
  \<^item> \<open>RegExp\<close> accepts a pattern of letters, digits and blanks without flags, which
    matches where it occurs, and rejects every other pattern with a \<^verbatim>\<open>SyntaxError\<close>: the
    only other pattern of the examples is \<^verbatim>\<open>(\<close>, an unterminated group.
\<close>

definition lowerChar :: "char \<Rightarrow> char" where
  "lowerChar c =
     (case map_of (zip ''ABCDEFGHIJKLMNOPQRSTUVWXYZ'' ''abcdefghijklmnopqrstuvwxyz'') c of
        Some d \<Rightarrow> d
      | None \<Rightarrow> c)"

definition whiteSpace :: "char \<Rightarrow> bool" where
  "whiteSpace c = (c \<in> set [CHR '' '', CHR 0x09, CHR 0x0A, CHR 0x0B, CHR 0x0C, CHR 0x0D])"

definition sampleTrim :: "string \<Rightarrow> string" where
  "sampleTrim s = rev (dropWhile whiteSpace (rev (dropWhile whiteSpace s)))"

definition digitOf :: "char \<Rightarrow> nat option" where
  "digitOf c = map_of (zip ''0123456789'' [0, 1, 2, 3, 4, 5, 6, 7, 8, 9]) c"

definition sampleNumber :: "string \<Rightarrow> jsnum" where
  "sampleNumber s =
     (let t = sampleTrim s in
      if list_all (\<lambda>c. digitOf c \<noteq> None) t
      then Fin (real (foldl (\<lambda>n c. 10 * n + (case digitOf c of Some d \<Rightarrow> d | None \<Rightarrow> 0)) 0 t))
      else NaN)"

definition literalPattern :: "string \<Rightarrow> bool" where
  "literalPattern p =
     list_all (\<lambda>c. c \<in> set (''ABCDEFGHIJKLMNOPQRSTUVWXYZ'' @ ''abcdefghijklmnopqrstuvwxyz''
                               @ ''0123456789 '')) p"

definition sampleRegExp :: "string \<Rightarrow> string option \<Rightarrow> error + (string \<Rightarrow> bool)" where
  "sampleRegExp p f =
     (if f = None \<and> literalPattern p then Inr (\<lambda>a. includes_s a p) else Inl SyntaxError)"

definition sampleRuntime :: runtime where
  "sampleRuntime =
     \<lparr>findUniqueVariable = (\<lambda>variables v. None),
      parseVariables = (\<lambda>variables v. stringOf v),
      toLowerCase = map lowerChar,
      trim = sampleTrim,
      normalize_s = (\<lambda>s. s),
      Number_s = sampleNumber,
      Date_parse = (\<lambda>s. NaN),
      RegExp_new = sampleRegExp\<rparr>"

subsection \<open>Comparisons on which nothing is thrown\<close>

text \<open>
  \<open>compiles E b\<close>: the constructor \<^verbatim>\<open>RegExp\<close> accepts what \<^verbatim>\<open>preprocessRegex\<close> makes of the
  target \<open>b\<close>. \<open>targets\<close> are the strings of a right-hand side. A comparison is
  \<open>wellFormed\<close> when, if its operator is one of the two regex operators, every non-empty
  target compiles, and, if its operator is STRING_SIMILARITY, its right-hand side is a
  string or the value of its variable is no string.
\<close>

definition compiles :: "runtime \<Rightarrow> string \<Rightarrow> bool" where
  "compiles E b =
     (case RegExp_new E (pattern (preprocessRegex b)) (flags (preprocessRegex b)) of
        Inl e \<Rightarrow> False
      | Inr test \<Rightarrow> True)"

fun targets :: "jsvalue \<Rightarrow> string list" where
  "targets Null = []"
| "targets (Str s) = [s]"
| "targets (Arr xs) = xs"

fun isString :: "jsvalue \<Rightarrow> bool" where
  "isString (Str s) = True"
| "isString v = False"

definition targetsCompile :: "runtime \<Rightarrow> jsvalue \<Rightarrow> bool" where
  "targetsCompile E b = list_all (\<lambda>y. y = [] \<or> compiles E y) (targets b)"

definition wellFormed :: "runtime \<Rightarrow> variable list \<Rightarrow> comparison \<Rightarrow> bool" where
  "wellFormed E variables c =
     (case comparisonOperator c of
        Some MATCHES_REGEX \<Rightarrow> targetsCompile E (resolveValue E variables (value_c c))
      | Some NOT_MATCH_REGEX \<Rightarrow> targetsCompile E (resolveValue E variables (value_c c))
      | Some STRING_SIMILARITY \<Rightarrow>
          isString (resolveValue E variables (value_c c))
          \<or> \<not> isString (resolveInputValue variables (stringOf (variableId c)))
      | _ \<Rightarrow> True)"

section \<open>Properties\<close>

subsection \<open>Comparing numbers\<close>

lemma js_gt_NaN_right [simp]: "js_gt x NaN = False"
  by (cases x) simp_all

subsection \<open>Rounding to the nearest double\<close>

text \<open>
  \<open>roundEven\<close> gives the integer that is nearer than one half, and \<open>fl x\<close> the multiple
  of the unit in the last place that is nearer than half a unit.
\<close>

lemma roundEven_near:
  assumes "\<bar>y - of_int n\<bar> < 1 / 2"
  shows "roundEven y = n"
proof (cases "of_int n \<le> y")
  case True
  with assms have "\<lfloor>y\<rfloor> = n" by (intro floor_unique) auto
  with assms True show ?thesis by (simp add: roundEven_def Let_def)
next
  case False
  with assms have "\<lfloor>y\<rfloor> = n - 1" by (intro floor_unique) auto
  with assms False show ?thesis by (simp add: roundEven_def Let_def)
qed

lemma fl_eval:
  assumes "0 < x" "2 powr of_int e \<le> x" "x < 2 powr of_int (e + 1)"
    and "\<bar>x / 2 powr (of_int e - 52) - of_int n\<bar> < 1 / 2"
  shows "fl x = of_int n * 2 powr (of_int e - 52)"
proof -
  have "\<lfloor>log 2 \<bar>x\<bar>\<rfloor> = e"
    using assms(1-3) by (simp add: floor_log_eq_powr_iff)
  with assms(1,4) show ?thesis
    by (simp add: fl_def Let_def roundEven_near)
qed

lemma fl_0 [simp]: "fl 0 = 0"
  by (simp add: fl_def)

lemma fl_eval_pos:
  assumes "k \<le> 52" "2 ^ k \<le> x" "x < 2 * 2 ^ k"
    and "\<bar>x * 2 ^ (52 - k) - of_int n\<bar> < 1 / 2"
  shows "fl x = of_int n / 2 ^ (52 - k)"
proof -
  have p: "2 powr (real k - 52) = 1 / (2::real) ^ (52 - k)"
  proof -
    have "real k - 52 = - real (52 - k)" using assms(1) by simp
    then show ?thesis by (simp only: powr_minus powr_realpow) (simp add: powr_realpow field_simps)
  qed
  have "0 < (2::real) ^ k" by simp
  with assms(2) have x: "0 < x" by linarith
  have "fl x = of_int n * 2 powr (of_int (int k) - 52)"
  proof (rule fl_eval[OF x])
    show "2 powr of_int (int k) \<le> x" using assms(2) by (simp add: powr_realpow)
    show "x < 2 powr of_int (int k + 1)"
    proof -
      have "2 powr of_int (int k + 1) = (2::real) ^ (k + 1)"
        by (metis of_int_of_nat_eq of_nat_Suc Suc_eq_plus1 of_nat_add of_nat_1 powr_realpow zero_less_numeral)
      with assms(3) show ?thesis by simp
    qed
    show "\<bar>x / 2 powr (of_int (int k) - 52) - of_int n\<bar> < 1 / 2"
      using assms(4) by (simp add: p)
  qed
  then show ?thesis by (simp add: p)
qed

lemma fl_eval_neg:
  assumes "1 \<le> x * 2 ^ k" "x * 2 ^ k < 2"
    and "\<bar>x * 2 ^ (52 + k) - of_int n\<bar> < 1 / 2"
  shows "fl x = of_int n / 2 ^ (52 + k)"
proof -
  have p: "2 powr (- real k - 52) = 1 / (2::real) ^ (52 + k)"
  proof -
    have "- real k - 52 = - real (52 + k)" by simp
    then show ?thesis by (simp only: powr_minus powr_realpow) (simp add: powr_realpow field_simps)
  qed
  have q: "2 powr (- real k) = 1 / (2::real) ^ k"
    by (simp add: powr_minus powr_realpow field_simps)
  have x: "0 < x"
  proof (rule ccontr)
    assume "\<not> 0 < x"
    then have "x * 2 ^ k \<le> 0" by (simp add: mult_le_0_iff)
    with assms(1) show False by simp
  qed
  have "fl x = of_int n * 2 powr (of_int (- int k) - 52)"
  proof (rule fl_eval[OF x])
    show "2 powr of_int (- int k) \<le> x" using assms(1) by (simp add: q field_simps)
    show "x < 2 powr of_int (- int k + 1)"
    proof -
      have "2 powr (1 - real k) = 2 powr (- real k) * 2 powr 1"
        by (simp only: powr_add[symmetric]) simp
      then have e: "2 powr (1 - real k) = 2 / (2::real) ^ k"
        by (simp add: q)
      show ?thesis using assms(2) by (simp add: e field_simps)
    qed
    show "\<bar>x / 2 powr (of_int (- int k) - 52) - of_int n\<bar> < 1 / 2"
      using assms(3) by (simp add: p)
  qed
  then show ?thesis by (simp add: p)
qed

text \<open>
  The integers below \<open>2 ^ 53\<close> are doubles: the sums and products of character counts are
  exact as long as they stay below.
\<close>

lemma fl_nat:
  assumes "n < 2 ^ 53"
  shows "fl (real n) = real n"
proof (cases "n = 0")
  case True
  then show ?thesis by simp
next
  case False
  define k where "k = nat \<lfloor>log 2 (real n)\<rfloor>"
  have "0 \<le> log 2 (real n)" using False by simp
  then have "\<lfloor>log (real 2) (real n)\<rfloor> = int k" by (simp add: k_def)
  then have b: "2 ^ k \<le> n" "n < 2 ^ (k + 1)"
    using False floor_log_nat_eq_powr_iff[of 2 n k] by simp_all
  from b(1) assms have "(2::nat) ^ k < 2 ^ 53" by (rule le_less_trans)
  then have "k < 53" by (rule power_less_imp_less_exp[rotated]) simp
  then have k: "k \<le> 52" by simp
  have r1: "(2::real) ^ k \<le> real n"
    using b(1) by (metis of_nat_le_iff of_nat_numeral of_nat_power)
  have r2: "real n < 2 * 2 ^ k"
    using b(2) by (metis of_nat_less_iff of_nat_numeral of_nat_power power_add power_one_right mult.commute)
  have "fl (real n) = of_int (int n * 2 ^ (52 - k)) / 2 ^ (52 - k)"
    by (rule fl_eval_pos[OF k r1 r2]) simp
  then show ?thesis by simp
qed

lemma fl_numeral [simp]: "(numeral w :: nat) < 2 ^ 53 \<Longrightarrow> fl (numeral w) = numeral w"
  using fl_nat[of "numeral w"] by simp

lemma fl_1 [simp]: "fl 1 = 1"
  using fl_nat[of 1] by simp

text \<open>
  The rounded square root of \<open>x\<close> is found by squaring: it is \<open>n\<close> units when \<open>x\<close> lies
  between the squares of \<open>n - 1/2\<close> and \<open>n + 1/2\<close> units.
\<close>

lemma fl_sqrt_eval:
  assumes "k \<le> 52" "4 ^ k \<le> x" "x < 4 * 4 ^ k" "0 < n"
    and "(2 * of_int n - 1)\<^sup>2 < 4 * x * 4 ^ (52 - k)"
    and "4 * x * 4 ^ (52 - k) < (2 * of_int n + 1)\<^sup>2"
  shows "fl (sqrt x) = of_int n / 2 ^ (52 - k)"
proof (rule fl_eval_pos[OF assms(1)])
  have sq: "sqrt ((4::real) ^ k) = 2 ^ k"
    by (metis real_sqrt_power real_sqrt_four)
  show "2 ^ k \<le> sqrt x"
    using real_sqrt_le_mono[OF assms(2)] by (simp add: sq)
  show "sqrt x < 2 * 2 ^ k"
    using real_sqrt_less_mono[OF assms(3)] by (simp add: sq real_sqrt_mult)
  have s4: "sqrt (4 * x * 4 ^ (52 - k)) = 2 * (sqrt x * 2 ^ (52 - k))"
    by (simp add: real_sqrt_mult real_sqrt_power)
  have l: "2 * of_int n - 1 < sqrt (4 * x * 4 ^ (52 - k))"
    by (rule real_less_rsqrt) (rule assms(5))
  have u: "sqrt (4 * x * 4 ^ (52 - k)) < 2 * of_int n + 1"
    by (rule real_less_lsqrt) (use assms(4,6) in simp_all)
  from l u show "\<bar>sqrt x * 2 ^ (52 - k) - of_int n\<bar> < 1 / 2"
    unfolding s4 by linarith
qed

text \<open>
  Rounding gives 0 for 0 only: the test \<^verbatim>\<open>magnitude1 === 0 || magnitude2 === 0\<close> holds
  exactly when a vector has no non-zero entry, and the divisor of the score is not 0 past
  it.
\<close>

lemma roundEven_ge: "of_int \<lfloor>y\<rfloor> \<le> (of_int (roundEven y) :: real)"
  by (simp add: roundEven_def Let_def)

lemma fl_eq_0_iff [simp]: "fl x = 0 \<longleftrightarrow> x = 0"
proof (cases "x = 0")
  case True
  then show ?thesis by simp
next
  case False
  define e where "e = \<lfloor>log 2 \<bar>x\<bar>\<rfloor>"
  have "2 powr of_int e \<le> \<bar>x\<bar>"
    using False floor_log_eq_powr_iff[of "\<bar>x\<bar>" 2 e] by (simp add: e_def)
  then have "2 powr of_int e / 2 powr (of_int e - 52) \<le> \<bar>x\<bar> / 2 powr (of_int e - 52)"
    by (simp add: divide_right_mono)
  moreover have "2 powr of_int e / 2 powr (of_int e - 52) = (2::real) powr 52"
    by (simp only: powr_diff[symmetric]) simp
  ultimately have "(2::real) powr 52 \<le> \<bar>x\<bar> / 2 powr (of_int e - 52)"
    by (simp only:)
  moreover have "1 \<le> (2::real) powr 52" by simp
  ultimately have "1 \<le> \<bar>x\<bar> / 2 powr (of_int e - 52)"
    by (rule order_trans[rotated])
  then have "1 \<le> \<lfloor>\<bar>x\<bar> / 2 powr (of_int e - 52)\<rfloor>" by simp
  with roundEven_ge[of "\<bar>x\<bar> / 2 powr (of_int e - 52)"]
  have "roundEven (\<bar>x\<bar> / 2 powr (of_int e - 52)) \<noteq> 0" by linarith
  with False show ?thesis
    by (simp add: fl_def Let_def e_def sgn_zero_iff)
qed

text \<open>
  The doubles of the examples: \<^verbatim>\<open>Math.sqrt(2)\<close>, \<^verbatim>\<open>Math.sqrt(3)\<close>, \<^verbatim>\<open>Math.sqrt(6)\<close> and
  \<^verbatim>\<open>Math.sqrt(7)\<close>, their squares (2.0000000000000004, 2.9999999999999996,
  5.999999999999999 and 7.000000000000001) and the quotients \<^verbatim>\<open>2 / 2.0000000000000004\<close>,
  \<^verbatim>\<open>1 / 2.9999999999999996\<close>, \<^verbatim>\<open>3 / 5.999999999999999\<close> and \<^verbatim>\<open>7 / 7.000000000000001\<close>
  (0.9999999999999998, 0.33333333333333337, 0.5000000000000001 and 0.9999999999999999).
\<close>

lemma fl_sqrt_2: "fl (sqrt 2) = 6369051672525773 / 2 ^ 52"
  using fl_sqrt_eval[of 0 2 6369051672525773] by simp

lemma fl_sqrt_3: "fl (sqrt 3) = 7800463371553962 / 2 ^ 52"
  using fl_sqrt_eval[of 0 3 7800463371553962] by simp

lemma fl_sqrt_6: "fl (sqrt 6) = 5515760546423086 / 2 ^ 51"
  using fl_sqrt_eval[of 1 6 5515760546423086] by simp

lemma fl_sqrt_7: "fl (sqrt 7) = 5957702309312746 / 2 ^ 51"
  using fl_sqrt_eval[of 1 7 5957702309312746] by simp

lemma fl_square_2:
  "fl (6369051672525773 / 2 ^ 52 * (6369051672525773 / 2 ^ 52)) = 4503599627370497 / 2 ^ 51"
  using fl_eval_pos[of 1 "6369051672525773 / 2 ^ 52 * (6369051672525773 / 2 ^ 52)" 4503599627370497]
  by simp

lemma fl_square_3:
  "fl (7800463371553962 / 2 ^ 52 * (7800463371553962 / 2 ^ 52)) = 6755399441055743 / 2 ^ 51"
  using fl_eval_pos[of 1 "7800463371553962 / 2 ^ 52 * (7800463371553962 / 2 ^ 52)" 6755399441055743]
  by simp

lemma fl_square_6:
  "fl (5515760546423086 / 2 ^ 51 * (5515760546423086 / 2 ^ 51)) = 6755399441055743 / 2 ^ 50"
  using fl_eval_pos[of 2 "5515760546423086 / 2 ^ 51 * (5515760546423086 / 2 ^ 51)" 6755399441055743]
  by simp

lemma fl_square_7:
  "fl (5957702309312746 / 2 ^ 51 * (5957702309312746 / 2 ^ 51)) = 7881299347898369 / 2 ^ 50"
  using fl_eval_pos[of 2 "5957702309312746 / 2 ^ 51 * (5957702309312746 / 2 ^ 51)" 7881299347898369]
  by simp

lemma fl_quotient_2: "fl (2 / (4503599627370497 / 2 ^ 51)) = 9007199254740990 / 2 ^ 53"
  using fl_eval_neg[of "2 / (4503599627370497 / 2 ^ 51)" 1 9007199254740990] by simp

lemma fl_quotient_3: "fl (1 / (6755399441055743 / 2 ^ 51)) = 6004799503160662 / 2 ^ 54"
  using fl_eval_neg[of "1 / (6755399441055743 / 2 ^ 51)" 2 6004799503160662] by simp

lemma fl_quotient_6: "fl (3 / (6755399441055743 / 2 ^ 50)) = 4503599627370497 / 2 ^ 53"
  using fl_eval_neg[of "3 / (6755399441055743 / 2 ^ 50)" 1 4503599627370497] by simp

lemma fl_quotient_7: "fl (7 / (7881299347898369 / 2 ^ 50)) = 9007199254740991 / 2 ^ 53"
  using fl_eval_neg[of "7 / (7881299347898369 / 2 ^ 50)" 1 9007199254740991] by simp

text \<open>The scores \<^verbatim>\<open>dotProduct / (magnitude1 * magnitude2)\<close> of the examples.\<close>

lemma js_divide_nonzero: "y \<noteq> 0 \<Longrightarrow> js_divide x y = Fin (fl (x / y))"
  by (simp add: js_divide_def js_div_def)

lemma js_divide_zero: "y \<noteq> 0 \<Longrightarrow> js_divide 0 y = Fin 0"
  by (simp add: js_divide_nonzero)

lemma score_2_2_2: "js_divide 2 (fl (fl (sqrt 2) * fl (sqrt 2))) = Fin (9007199254740990 / 2 ^ 53)"
proof -
  have nz: "4503599627370497 / 2 ^ 51 \<noteq> (0::real)" by simp
  show ?thesis
    by (simp only: fl_sqrt_2 fl_square_2 js_divide_nonzero[OF nz] fl_quotient_2)
qed

lemma score_1_3_3: "js_divide 1 (fl (fl (sqrt 3) * fl (sqrt 3))) = Fin (6004799503160662 / 2 ^ 54)"
proof -
  have nz: "6755399441055743 / 2 ^ 51 \<noteq> (0::real)" by simp
  show ?thesis
    by (simp only: fl_sqrt_3 fl_square_3 js_divide_nonzero[OF nz] fl_quotient_3)
qed

lemma score_3_6_6: "js_divide 3 (fl (fl (sqrt 6) * fl (sqrt 6))) = Fin (4503599627370497 / 2 ^ 53)"
proof -
  have nz: "6755399441055743 / 2 ^ 50 \<noteq> (0::real)" by simp
  show ?thesis
    by (simp only: fl_sqrt_6 fl_square_6 js_divide_nonzero[OF nz] fl_quotient_6)
qed

lemma score_7_7_7: "js_divide 7 (fl (fl (sqrt 7) * fl (sqrt 7))) = Fin (9007199254740991 / 2 ^ 53)"
proof -
  have nz: "7881299347898369 / 2 ^ 50 \<noteq> (0::real)" by simp
  show ?thesis
    by (simp only: fl_sqrt_7 fl_square_7 js_divide_nonzero[OF nz] fl_quotient_7)
qed

lemma score_0: "0 < a \<Longrightarrow> 0 < b \<Longrightarrow> js_divide 0 (fl (fl (sqrt a) * fl (sqrt b))) = Fin 0"
  by (rule js_divide_zero) simp

subsection \<open>\<^verbatim>\<open>every\<close>, \<^verbatim>\<open>some\<close> and \<^verbatim>\<open>compare\<close>\<close>

lemma every_pure: "every (\<lambda>x. Inr (p x)) xs = Inr (list_all p xs)"
  by (induction xs) auto

lemma some_pure: "some (\<lambda>x. Inr (p x)) xs = Inr (list_ex p xs)"
  by (induction xs) auto

lemma every_no_throw:
  "(\<And>x. x \<in> set xs \<Longrightarrow> \<exists>b. f x = Inr b) \<Longrightarrow> every f xs = Inr (\<forall>x\<in>set xs. f x = Inr True)"
proof (induction xs)
  case Nil
  then show ?case by simp
next
  case (Cons x xs)
  from Cons.prems[of x] obtain b where b: "f x = Inr b" by auto
  have "every f xs = Inr (\<forall>x\<in>set xs. f x = Inr True)"
    using Cons.IH Cons.prems by simp
  with b show ?case by simp
qed

lemma some_no_throw:
  "(\<And>x. x \<in> set xs \<Longrightarrow> \<exists>b. f x = Inr b) \<Longrightarrow> some f xs = Inr (\<exists>x\<in>set xs. f x = Inr True)"
proof (induction xs)
  case Nil
  then show ?case by simp
next
  case (Cons x xs)
  from Cons.prems[of x] obtain b where b: "f x = Inr b" by auto
  have "some f xs = Inr (\<exists>x\<in>set xs. f x = Inr True)"
    using Cons.IH Cons.prems by simp
  with b show ?case by auto
qed

lemma every_cong_set: "(\<And>x. x \<in> set xs \<Longrightarrow> f x = g x) \<Longrightarrow> every f xs = every g xs"
  by (induction xs) (auto split: sum.splits)

lemma some_cong_set: "(\<And>x. x \<in> set xs \<Longrightarrow> f x = g x) \<Longrightarrow> some f xs = some g xs"
  by (induction xs) (auto split: sum.splits)

lemma compare_pure:
  "\<exists>r. compare (\<lambda>x y. Inr (p x y)) a b t = Inr r"
  by (simp add: compare_def every_pure some_pure)

lemma compare_no_throw:
  assumes none: "\<And>x. \<exists>r. cs x None = Inr r"
    and tg: "\<And>x y. y \<in> set (targets b) \<Longrightarrow> \<exists>r. cs x (Some y) = Inr r"
  shows "\<exists>r. compare cs a b t = Inr r"
proof (cases b)
  case Null
  then show ?thesis using none by (simp add: compare_def every_no_throw some_no_throw)
next
  case (Str s)
  then show ?thesis using tg[of s] by (simp add: compare_def every_no_throw some_no_throw)
next
  case (Arr ys)
  have inner: "\<And>x. \<exists>r. every (\<lambda>y. cs x (Some y)) ys = Inr r" "\<And>x. \<exists>r. some (\<lambda>y. cs x (Some y)) ys = Inr r"
    using tg Arr by (simp_all add: every_no_throw some_no_throw)
  show ?thesis using Arr inner by (simp add: compare_def every_no_throw some_no_throw)
qed


lemma matchesRegex_no_throw:
  "y = [] \<or> compiles E y \<Longrightarrow> \<exists>r. matchesRegex E x (Some y) = Inr r"
  by (auto simp: matchesRegex_def compiles_def Let_def split: sum.splits)

lemma matchesRegex_not_no_throw:
  "y = [] \<or> compiles E y \<Longrightarrow> \<exists>r. matchesRegex_not E x (Some y) = Inr r"
  by (auto simp: matchesRegex_not_def compiles_def Let_def split: sum.splits)

lemma switchOperator_no_throw:
  assumes "operator = MATCHES_REGEX \<or> operator = NOT_MATCH_REGEX \<Longrightarrow> targetsCompile E b"
    and "operator = STRING_SIMILARITY \<Longrightarrow> isString b \<or> \<not> isString a"
  shows "\<exists>r. switchOperator E operator a b = Inr r"
proof (cases operator)
  case MATCHES_REGEX
  with assms have "\<And>y. y \<in> set (targets b) \<Longrightarrow> y = [] \<or> compiles E y"
    by (simp add: targetsCompile_def list_all_iff)
  then have ok: "\<And>x y. y \<in> set (targets b) \<Longrightarrow> \<exists>r. matchesRegex E x (Some y) = Inr r"
    using matchesRegex_no_throw by blast
  have none: "\<And>x. \<exists>r. matchesRegex E x None = Inr r"
    by (auto simp: matchesRegex_def)
  have "\<exists>r. compare (matchesRegex E) a b TypeSome = Inr r"
    using compare_no_throw[of "matchesRegex E" b, OF none ok] by blast
  with MATCHES_REGEX show ?thesis by simp
next
  case NOT_MATCH_REGEX
  with assms have "\<And>y. y \<in> set (targets b) \<Longrightarrow> y = [] \<or> compiles E y"
    by (simp add: targetsCompile_def list_all_iff)
  then have ok: "\<And>x y. y \<in> set (targets b) \<Longrightarrow> \<exists>r. matchesRegex_not E x (Some y) = Inr r"
    using matchesRegex_not_no_throw by blast
  have none: "\<And>x. \<exists>r. matchesRegex_not E x None = Inr r"
    by (auto simp: matchesRegex_not_def)
  have "\<exists>r. compare (matchesRegex_not E) a b TypeEvery = Inr r"
    using compare_no_throw[of "matchesRegex_not E" b, OF none ok] by blast
  with NOT_MATCH_REGEX show ?thesis by simp
next
  case STRING_SIMILARITY
  with assms have "isString b \<or> \<not> isString a" by simp
  then have "\<exists>r. stringSimilarity E a b = Inr r"
    by (cases a; cases b) (auto simp: stringSimilarity_def)
  with STRING_SIMILARITY show ?thesis by simp
qed (auto simp: compare_pure split: jsvalue.splits)

lemma executeComparison_no_throw:
  "wellFormed E variables c \<Longrightarrow> \<exists>r. executeComparison E variables c = Inr r"
  unfolding executeComparison_def wellFormed_def
  by (auto split: option.splits intro!: switchOperator_no_throw)

lemma switchOperator_lev_no_throw:
  assumes "operator = MATCHES_REGEX \<or> operator = NOT_MATCH_REGEX \<Longrightarrow> targetsCompile E b"
  shows "\<exists>r. switchOperator_lev E operator a b = Inr r"
proof (cases operator)
  case MATCHES_REGEX
  with assms have "\<And>y. y \<in> set (targets b) \<Longrightarrow> y = [] \<or> compiles E y"
    by (simp add: targetsCompile_def list_all_iff)
  then have ok: "\<And>x y. y \<in> set (targets b) \<Longrightarrow> \<exists>r. matchesRegex E x (Some y) = Inr r"
    using matchesRegex_no_throw by blast
  have none: "\<And>x. \<exists>r. matchesRegex E x None = Inr r"
    by (auto simp: matchesRegex_def)
  have "\<exists>r. compare (matchesRegex E) a b TypeSome = Inr r"
    using compare_no_throw[of "matchesRegex E" b, OF none ok] by blast
  with MATCHES_REGEX show ?thesis by simp
next
  case NOT_MATCH_REGEX
  with assms have "\<And>y. y \<in> set (targets b) \<Longrightarrow> y = [] \<or> compiles E y"
    by (simp add: targetsCompile_def list_all_iff)
  then have ok: "\<And>x y. y \<in> set (targets b) \<Longrightarrow> \<exists>r. matchesRegex_not E x (Some y) = Inr r"
    using matchesRegex_not_no_throw by blast
  have none: "\<And>x. \<exists>r. matchesRegex_not E x None = Inr r"
    by (auto simp: matchesRegex_not_def)
  have "\<exists>r. compare (matchesRegex_not E) a b TypeEvery = Inr r"
    using compare_no_throw[of "matchesRegex_not E" b, OF none ok] by blast
  with NOT_MATCH_REGEX show ?thesis by simp
qed (auto simp: compare_pure split: jsvalue.splits)

lemma executeComparison_lev_no_throw:
  "(comparisonOperator c = Some MATCHES_REGEX \<or> comparisonOperator c = Some NOT_MATCH_REGEX
      \<longrightarrow> targetsCompile E (resolveValue E variables (value_c c))) \<Longrightarrow>
     \<exists>r. executeComparison_lev E variables c = Inr r"
  unfolding executeComparison_lev_def
  by (auto split: option.splits intro!: switchOperator_lev_no_throw)

subsection \<open>\<^verbatim>\<open>preprocessRegex\<close> never gives an empty pattern\<close>

text \<open>
  The callbacks of the regex operators read \<^verbatim>\<open>preprocessRegex(b)\<close> only of a non-empty
  \<open>b\<close>, and its pattern is then non-empty: the tests \<^verbatim>\<open>if (!regex.pattern)\<close> never succeed.
\<close>

lemma matchBody_nonempty: "matchBody cs = Some (p, f) \<Longrightarrow> p \<noteq> []"
proof (cases cs)
  case Nil
  then show "matchBody cs = Some (p, f) \<Longrightarrow> p \<noteq> []" by simp
next
  case (Cons c ds)
  assume m: "matchBody cs = Some (p, f)"
  show "p \<noteq> []"
  proof (cases "matchBody ds")
    case None
    with m Cons show ?thesis
      by (cases ds) (auto split: if_splits)
  next
    case (Some r)
    with m Cons show ?thesis
      by (cases r) (auto split: if_splits)
  qed
qed

lemma matchRegexLiteral_nonempty: "matchRegexLiteral s = Some (p, f) \<Longrightarrow> p \<noteq> []"
  by (induction s) (auto split: if_splits option.splits dest: matchBody_nonempty)

lemma pattern_nonempty: "b \<noteq> [] \<Longrightarrow> pattern (preprocessRegex b) \<noteq> []"
  by (auto simp: preprocessRegex_def split: option.splits dest: matchRegexLiteral_nonempty)

lemma matchesRegex_throws:
  assumes "a \<noteq> []" "b \<noteq> []"
    and "RegExp_new E (pattern (preprocessRegex b)) (flags (preprocessRegex b)) = Inl e"
  shows "matchesRegex E (Some a) (Some b) = Inl e" "matchesRegex_not E (Some a) (Some b) = Inl e"
  using assms by (simp_all add: matchesRegex_def matchesRegex_not_def Let_def pattern_nonempty)

subsection \<open>Unfolding for the closed examples\<close>

lemmas sample_defs =
  sampleRuntime_def sampleRegExp_def sampleNumber_def sampleTrim_def whiteSpace_def
  lowerChar_def digitOf_def literalPattern_def

lemmas evaluator_defs =
  executeCondition_def executeComparison_def resolveInputValue_def resolveValue_def
  compare_def

subsection \<open>C1: which inputs make the evaluator throw\<close>

text \<open>
  C1, as stated, fails: \<^verbatim>\<open>executeCondition\<close> of \<^verbatim>\<open>executeCondition.ts\<close> throws on two inputs.
  With the variable \<^verbatim>\<open>v\<close> bound to \<^verbatim>\<open>"abc"\<close>, the comparison \<^verbatim>\<open>v MATCHES_REGEX "("\<close> ends in the
  \<^verbatim>\<open>SyntaxError\<close> of \<^verbatim>\<open>new RegExp("(")\<close>, which nothing catches, and the comparison
  \<^verbatim>\<open>v STRING_SIMILARITY "null"\<close>, whose right-hand side is \<^verbatim>\<open>null\<close>, ends in the \<^verbatim>\<open>TypeError\<close>
  of \<^verbatim>\<open>value.split\<close>.
\<close>

theorem executeCondition_throws_counterexample:
  "executeCondition sampleRuntime
     \<lparr>logicalOperator = Some AND,
      comparisons = Some [\<lparr>variableId = Some ''v'', comparisonOperator = Some MATCHES_REGEX,
                           value_c = Some ''(''\<rparr>]\<rparr>
     [\<lparr>id_v = ''v'', value_v = Some (Str ''abc'')\<rparr>] = Inl SyntaxError
   \<and> executeCondition sampleRuntime
     \<lparr>logicalOperator = Some AND,
      comparisons = Some [\<lparr>variableId = Some ''v'', comparisonOperator = Some STRING_SIMILARITY,
                           value_c = Some ''null''\<rparr>]\<rparr>
     [\<lparr>id_v = ''v'', value_v = Some (Str ''abc'')\<rparr>] = Inl TypeError"
  by (simp add: evaluator_defs sample_defs matchesRegex_def preprocessRegex_def
        lineTerminator_def flagLetter_def stringSimilarity_def)

text \<open>
  C1, amended: a condition without comparisons evaluates to \<open>False\<close>; a condition all of
  whose comparisons are well formed (every non-empty target of a regex operator is
  accepted by \<^verbatim>\<open>RegExp\<close>, no STRING_SIMILARITY has a string to the left of a right-hand
  side that is no string)
  evaluates to a boolean, whatever fields are missing and whatever \<^verbatim>\<open>Number\<close> and
  \<^verbatim>\<open>Date.parse\<close> make of the texts; and a regex operator applied to a non-empty input and
  a non-empty target that \<^verbatim>\<open>RegExp\<close> rejects ends in the constructor's exception.
\<close>

theorem executeCondition_returns_unless_thrown:
  "(comparisons condition = None \<longrightarrow> executeCondition E condition variables = Inr False) \<and>
   (comparisons condition = Some cs \<and> list_all (wellFormed E variables) cs \<longrightarrow>
      (\<exists>r. executeCondition E condition variables = Inr r)) \<and>
   (\<not> falsy (variableId c) \<and>
    (comparisonOperator c = Some MATCHES_REGEX \<or> comparisonOperator c = Some NOT_MATCH_REGEX) \<and>
    resolveInputValue variables (stringOf (variableId c)) = Str a \<and> a \<noteq> [] \<and>
    resolveValue E variables (value_c c) = Str b \<and> b \<noteq> [] \<and>
    RegExp_new E (pattern (preprocessRegex b)) (flags (preprocessRegex b)) = Inl e \<longrightarrow>
      executeComparison E variables c = Inl e)"
proof (intro conjI impI)
  assume "comparisons condition = None"
  then show "executeCondition E condition variables = Inr False"
    by (simp add: executeCondition_def)
next
  assume h: "comparisons condition = Some cs \<and> list_all (wellFormed E variables) cs"
  then have "\<And>c. c \<in> set cs \<Longrightarrow> \<exists>r. executeComparison E variables c = Inr r"
    by (simp add: list_all_iff executeComparison_no_throw)
  then have "every (executeComparison E variables) cs
               = Inr (\<forall>c\<in>set cs. executeComparison E variables c = Inr True)"
    and "some (executeComparison E variables) cs
               = Inr (\<exists>c\<in>set cs. executeComparison E variables c = Inr True)"
    by (simp_all add: every_no_throw some_no_throw)
  with h show "\<exists>r. executeCondition E condition variables = Inr r"
    by (simp add: executeCondition_def)
next
  assume h: "\<not> falsy (variableId c) \<and>
    (comparisonOperator c = Some MATCHES_REGEX \<or> comparisonOperator c = Some NOT_MATCH_REGEX) \<and>
    resolveInputValue variables (stringOf (variableId c)) = Str a \<and> a \<noteq> [] \<and>
    resolveValue E variables (value_c c) = Str b \<and> b \<noteq> [] \<and>
    RegExp_new E (pattern (preprocessRegex b)) (flags (preprocessRegex b)) = Inl e"
  then have "matchesRegex E (Some a) (Some b) = Inl e" "matchesRegex_not E (Some a) (Some b) = Inl e"
    by (simp_all add: matchesRegex_throws)
  with h show "executeComparison E variables c = Inl e"
    by (auto simp: executeComparison_def compare_def)
qed

theorem executeCondition_returns_unless_thrown_witness:
  "list_all (wellFormed sampleRuntime [\<lparr>id_v = ''v'', value_v = Some (Str ''abc'')\<rparr>])
     [\<lparr>variableId = None, comparisonOperator = Some EQUAL, value_c = None\<rparr>,
      \<lparr>variableId = Some ''v'', comparisonOperator = Some GREATER, value_c = Some ''xyz''\<rparr>,
      \<lparr>variableId = Some ''v'', comparisonOperator = Some MATCHES_REGEX, value_c = Some ''b''\<rparr>,
      \<lparr>variableId = Some ''v'', comparisonOperator = Some STRING_SIMILARITY, value_c = Some ''a|b''\<rparr>]
   \<and> (\<exists>r. executeCondition sampleRuntime
         \<lparr>logicalOperator = Some OR,
          comparisons = Some
            [\<lparr>variableId = None, comparisonOperator = Some EQUAL, value_c = None\<rparr>,
             \<lparr>variableId = Some ''v'', comparisonOperator = Some GREATER, value_c = Some ''xyz''\<rparr>,
             \<lparr>variableId = Some ''v'', comparisonOperator = Some MATCHES_REGEX, value_c = Some ''b''\<rparr>,
             \<lparr>variableId = Some ''v'', comparisonOperator = Some STRING_SIMILARITY,
               value_c = Some ''a|b''\<rparr>]\<rparr>
         [\<lparr>id_v = ''v'', value_v = Some (Str ''abc'')\<rparr>] = Inr r)
   \<and> executeComparison sampleRuntime [\<lparr>id_v = ''v'', value_v = Some (Str ''abc'')\<rparr>]
         \<lparr>variableId = Some ''v'', comparisonOperator = Some NOT_MATCH_REGEX, value_c = Some ''(''\<rparr>
       = Inl SyntaxError"
proof -
  let ?vs = "[\<lparr>id_v = ''v'', value_v = Some (Str ''abc'')\<rparr>]"
  let ?cs = "[\<lparr>variableId = None, comparisonOperator = Some EQUAL, value_c = None\<rparr>,
      \<lparr>variableId = Some ''v'', comparisonOperator = Some GREATER, value_c = Some ''xyz''\<rparr>,
      \<lparr>variableId = Some ''v'', comparisonOperator = Some MATCHES_REGEX, value_c = Some ''b''\<rparr>,
      \<lparr>variableId = Some ''v'', comparisonOperator = Some STRING_SIMILARITY, value_c = Some ''a|b''\<rparr>]"
  let ?bad = "\<lparr>variableId = Some ''v'', comparisonOperator = Some NOT_MATCH_REGEX, value_c = Some ''(''\<rparr>"
  have wf: "list_all (wellFormed sampleRuntime ?vs) ?cs"
    by (simp add: wellFormed_def targetsCompile_def compiles_def resolveValue_def
          preprocessRegex_def sample_defs)
  have rej: "RegExp_new sampleRuntime (pattern (preprocessRegex ''('')) (flags (preprocessRegex ''(''))
               = Inl SyntaxError"
    by (simp add: preprocessRegex_def sample_defs)
  have res: "resolveInputValue ?vs (stringOf (variableId ?bad)) = Str ''abc''"
    "resolveValue sampleRuntime ?vs (value_c ?bad) = Str ''(''"
    by (simp_all add: resolveInputValue_def resolveValue_def sample_defs)
  show ?thesis
    using executeCondition_returns_unless_thrown
      [of "\<lparr>logicalOperator = Some OR, comparisons = Some ?cs\<rparr>" sampleRuntime ?vs ?cs
          ?bad "''abc''" "''(''" SyntaxError] wf rej res
    by simp
qed

subsection \<open>C2: the top level fails closed\<close>

text \<open>
  C2: a condition whose \<^verbatim>\<open>comparisons\<close> are \<^verbatim>\<open>undefined\<close> evaluates to \<open>False\<close>, whatever its
  logical operator; over an empty list of comparisons AND gives \<open>True\<close> and OR gives
  \<open>False\<close>.
\<close>

theorem executeCondition_fails_closed:
  "executeCondition E \<lparr>logicalOperator = lo, comparisons = None\<rparr> variables = Inr False \<and>
   executeCondition E \<lparr>logicalOperator = Some AND, comparisons = Some []\<rparr> variables = Inr True \<and>
   executeCondition E \<lparr>logicalOperator = Some OR, comparisons = Some []\<rparr> variables = Inr False"
  by (simp add: executeCondition_def)

theorem executeCondition_fails_closed_witness:
  "executeCondition sampleRuntime \<lparr>logicalOperator = None, comparisons = None\<rparr>
     [\<lparr>id_v = ''v'', value_v = Some (Str ''abc'')\<rparr>] = Inr False \<and>
   executeCondition sampleRuntime \<lparr>logicalOperator = Some AND, comparisons = Some []\<rparr>
     [\<lparr>id_v = ''v'', value_v = Some (Str ''abc'')\<rparr>] = Inr True \<and>
   executeCondition sampleRuntime \<lparr>logicalOperator = Some OR, comparisons = Some []\<rparr>
     [\<lparr>id_v = ''v'', value_v = Some (Str ''abc'')\<rparr>] = Inr False"
  using executeCondition_fails_closed
    [of sampleRuntime None "[\<lparr>id_v = ''v'', value_v = Some (Str ''abc'')\<rparr>]"]
  by simp

subsection \<open>C3: a comparison with a missing field is \<open>False\<close>\<close>

text \<open>
  C3: a comparison whose \<^verbatim>\<open>variableId\<close> is absent or empty, or whose operator is absent,
  evaluates to \<open>False\<close> and throws nothing, in both variants, whatever the variables,
  the runtime and the field \<^verbatim>\<open>value\<close> are.
\<close>

theorem executeComparison_missing_field:
  "variableId c = None \<or> variableId c = Some [] \<or> comparisonOperator c = None \<Longrightarrow>
     executeComparison E variables c = Inr False \<and> executeComparison_lev E variables c = Inr False"
  by (auto simp: executeComparison_def executeComparison_lev_def)

theorem executeComparison_missing_field_witness:
  "executeComparison sampleRuntime [\<lparr>id_v = ''v'', value_v = Some (Str ''abc'')\<rparr>]
     \<lparr>variableId = None, comparisonOperator = Some MATCHES_REGEX, value_c = Some ''(''\<rparr> = Inr False \<and>
   executeComparison sampleRuntime [\<lparr>id_v = [], value_v = Some (Str ''abc'')\<rparr>]
     \<lparr>variableId = Some [], comparisonOperator = Some EQUAL, value_c = Some ''abc''\<rparr> = Inr False \<and>
   executeComparison sampleRuntime [\<lparr>id_v = ''v'', value_v = Some (Str ''abc'')\<rparr>]
     \<lparr>variableId = Some ''v'', comparisonOperator = None, value_c = None\<rparr> = Inr False"
  using
    executeComparison_missing_field
      [of "\<lparr>variableId = None, comparisonOperator = Some MATCHES_REGEX, value_c = Some ''(''\<rparr>"
          sampleRuntime "[\<lparr>id_v = ''v'', value_v = Some (Str ''abc'')\<rparr>]"]
    executeComparison_missing_field
      [of "\<lparr>variableId = Some [], comparisonOperator = Some EQUAL, value_c = Some ''abc''\<rparr>"
          sampleRuntime "[\<lparr>id_v = [], value_v = Some (Str ''abc'')\<rparr>]"]
    executeComparison_missing_field
      [of "\<lparr>variableId = Some ''v'', comparisonOperator = None, value_c = None\<rparr>"
          sampleRuntime "[\<lparr>id_v = ''v'', value_v = Some (Str ''abc'')\<rparr>]"]
  by simp

subsection \<open>C4: NOT_MATCH_REGEX\<close>






subsection \<open>C5: CONTAINS\<close>

lemma compare_equal_array_string:
  "compare (\<lambda>x y. Inr (equal E x y)) (Arr xs) (Str y) TypeSome
     = Inr (\<exists>x\<in>set xs. normalize_s E x = normalize_s E y)"
  by (simp add: compare_def some_pure equal_def list_ex_iff)

lemma some_some_pure:
  "some (\<lambda>x. some (\<lambda>y. Inr (p x y)) ys) xs = Inr (\<exists>x\<in>set xs. \<exists>y\<in>set ys. p x y)"
  by (simp add: some_pure list_ex_iff)

lemma compare_equal_array_array:
  "compare (\<lambda>x y. Inr (equal E x y)) (Arr xs) (Arr ys) TypeSome
     = Inr (\<exists>x\<in>set xs. \<exists>y\<in>set ys. normalize_s E x = normalize_s E y)"
  by (simp add: compare_def some_some_pure equal_def)

lemma compare_contains_scalar:
  "\<not> isArray b \<Longrightarrow> compare (\<lambda>x y. Inr (contains E x y)) (Str x) b TypeSome
     = Inr (x \<noteq> [] \<and> (\<exists>y. b = Str y \<and> y \<noteq> [] \<and> includes_s (lowered E x) (lowered E y)))"
  by (cases b) (auto simp: compare_def contains_def)

lemma compare_contains_empty:
  "compare (\<lambda>x y. Inr (contains E x y)) (Str []) b TypeSome = Inr False"
  by (cases b) (auto simp: compare_def contains_def some_pure list_ex_iff)

text \<open>
  C5, as stated, fails. The target of one blank is not empty for the guards of the
  callback, which test it before it is trimmed, and is empty for the substring test,
  which trims it. With the empty string as input the normalised substring test holds
  (both sides trim to the empty string), yet CONTAINS returns \<open>False\<close>, by the guard \<^verbatim>\<open>!a\<close>;
  with the input \<^verbatim>\<open>"abc"\<close> CONTAINS returns \<open>True\<close>. The array \<^verbatim>\<open>["x"]\<close> as input and
  the target \<^verbatim>\<open>null\<close>: no element equals \<^verbatim>\<open>null\<close>, yet CONTAINS returns \<open>True\<close>, since the
  callback \<^verbatim>\<open>equal\<close> returns \<^verbatim>\<open>a !== b\<close> when one side is no string.
\<close>

theorem contains_counterexample:
  "executeComparison sampleRuntime [\<lparr>id_v = ''v'', value_v = Some (Str [])\<rparr>]
     \<lparr>variableId = Some ''v'', comparisonOperator = Some CONTAINS, value_c = Some '' ''\<rparr>
     = Inr False \<and>
   includes_s (lowered sampleRuntime []) (lowered sampleRuntime '' '') \<and>
   executeComparison sampleRuntime [\<lparr>id_v = ''v'', value_v = Some (Str ''abc'')\<rparr>]
     \<lparr>variableId = Some ''v'', comparisonOperator = Some CONTAINS, value_c = Some '' ''\<rparr>
     = Inr True \<and>
   executeComparison sampleRuntime [\<lparr>id_v = ''v'', value_v = Some (Arr [''x''])\<rparr>]
     \<lparr>variableId = Some ''v'', comparisonOperator = Some CONTAINS, value_c = Some ''null''\<rparr>
     = Inr True"
  by (simp add: evaluator_defs sample_defs contains_def equal_def lowered_def)

text \<open>
  C5, amended: for a CONTAINS comparison that names a variable, with \<open>a\<close> the value of the
  variable and \<open>b\<close> the right-hand side,
  \<^item> when \<open>a\<close> is an array and \<open>b\<close> a string, the result is \<open>True\<close> exactly when an element
    of \<open>a\<close> and \<open>b\<close> are equal after \<^verbatim>\<open>normalize\<close> (no change of case, no trimming); when
    both are arrays, exactly when an element of \<open>a\<close> equals an element of \<open>b\<close> so;
  \<^item> when \<open>a\<close> is a non-empty string and \<open>b\<close> a string, the result is \<open>True\<close> exactly when
    \<open>b\<close> is not empty and \<open>b\<close>, lowered, trimmed and normalised, occurs in \<open>a\<close>, lowered,
    trimmed and normalised;
  \<^item> when \<open>a\<close> is a string and \<open>b\<close> is \<^verbatim>\<open>null\<close> or empty, the result is \<open>False\<close>;
  \<^item> when \<open>a\<close> is the empty string, the result is \<open>False\<close>;
  \<^item> the input \<^verbatim>\<open>"  Hello World  "\<close> with the target \<^verbatim>\<open>"hello"\<close> gives \<open>True\<close>, for every
    runtime that lowers and trims these two strings as JavaScript does.
  What CONTAINS returns for an array and the target \<^verbatim>\<open>null\<close> is left out.
\<close>

theorem contains_semantics:
  "\<not> falsy (variableId c) \<Longrightarrow> comparisonOperator c = Some CONTAINS \<Longrightarrow>
   resolveInputValue variables (stringOf (variableId c)) = a \<Longrightarrow>
   resolveValue E variables (value_c c) = b \<Longrightarrow>
     (a = Arr xs \<and> b = Str y \<longrightarrow>
        executeComparison E variables c
          = Inr (\<exists>x\<in>set xs. normalize_s E x = normalize_s E y)) \<and>
     (a = Arr xs \<and> b = Arr ys \<longrightarrow>
        executeComparison E variables c
          = Inr (\<exists>x\<in>set xs. \<exists>y\<in>set ys. normalize_s E x = normalize_s E y)) \<and>
     (a = Str x \<and> x \<noteq> [] \<and> b = Str y \<longrightarrow>
        executeComparison E variables c
          = Inr (y \<noteq> [] \<and> includes_s (lowered E x) (lowered E y))) \<and>
     (a = Str x \<and> (b = Null \<or> b = Str []) \<longrightarrow> executeComparison E variables c = Inr False) \<and>
     (a = Str [] \<longrightarrow> executeComparison E variables c = Inr False) \<and>
     (a = Str ''  Hello World  '' \<and> b = Str ''hello'' \<and>
      lowered E ''  Hello World  '' = ''hello world'' \<and> lowered E ''hello'' = ''hello'' \<longrightarrow>
        executeComparison E variables c = Inr True)"
proof -
  assume h: "\<not> falsy (variableId c)" "comparisonOperator c = Some CONTAINS"
    "resolveInputValue variables (stringOf (variableId c)) = a"
    "resolveValue E variables (value_c c) = b"
  have e: "executeComparison E variables c = switchOperator E CONTAINS a b"
    using h by (simp add: executeComparison_def)
  have 1: "a = Arr xs \<and> b = Str y \<longrightarrow>
        switchOperator E CONTAINS a b = Inr (\<exists>x\<in>set xs. normalize_s E x = normalize_s E y)"
    by (simp add: compare_equal_array_string)
  have 2: "a = Arr xs \<and> b = Arr ys \<longrightarrow>
        switchOperator E CONTAINS a b
          = Inr (\<exists>x\<in>set xs. \<exists>y\<in>set ys. normalize_s E x = normalize_s E y)"
    by (simp add: compare_equal_array_array)
  have 3: "a = Str x \<and> x \<noteq> [] \<and> b = Str y \<longrightarrow>
        switchOperator E CONTAINS a b = Inr (y \<noteq> [] \<and> includes_s (lowered E x) (lowered E y))"
    by (simp add: compare_contains_scalar)
  have 4: "a = Str x \<and> (b = Null \<or> b = Str []) \<longrightarrow> switchOperator E CONTAINS a b = Inr False"
    by (auto simp: compare_contains_scalar)
  have 5: "a = Str [] \<longrightarrow> switchOperator E CONTAINS a b = Inr False"
    by (simp add: compare_contains_empty)
  have 6: "a = Str ''  Hello World  '' \<and> b = Str ''hello'' \<and>
      lowered E ''  Hello World  '' = ''hello world'' \<and> lowered E ''hello'' = ''hello'' \<longrightarrow>
        switchOperator E CONTAINS a b = Inr True"
    by (simp add: compare_contains_scalar)
  from 1 2 3 4 5 6 show ?thesis unfolding e by blast
qed

theorem contains_semantics_witness:
  "\<not> falsy (Some ''v'') \<and>
   executeComparison sampleRuntime
     [\<lparr>id_v = ''v'', value_v = Some (Str ''  Hello World  '')\<rparr>,
      \<lparr>id_v = ''w'', value_v = Some (Arr [''red'', ''green''])\<rparr>]
     \<lparr>variableId = Some ''v'', comparisonOperator = Some CONTAINS, value_c = Some ''hello''\<rparr>
     = Inr True \<and>
   executeComparison sampleRuntime
     [\<lparr>id_v = ''v'', value_v = Some (Str ''  Hello World  '')\<rparr>,
      \<lparr>id_v = ''w'', value_v = Some (Arr [''red'', ''green''])\<rparr>]
     \<lparr>variableId = Some ''v'', comparisonOperator = Some CONTAINS, value_c = Some []\<rparr>
     = Inr False \<and>
   executeComparison sampleRuntime
     [\<lparr>id_v = ''v'', value_v = Some (Str ''  Hello World  '')\<rparr>,
      \<lparr>id_v = ''w'', value_v = Some (Arr [''red'', ''green''])\<rparr>]
     \<lparr>variableId = Some ''w'', comparisonOperator = Some CONTAINS, value_c = Some ''green''\<rparr>
     = Inr True \<and>
   executeComparison sampleRuntime
     [\<lparr>id_v = ''v'', value_v = Some (Str ''  Hello World  '')\<rparr>,
      \<lparr>id_v = ''w'', value_v = Some (Arr [''red'', ''green''])\<rparr>]
     \<lparr>variableId = Some ''w'', comparisonOperator = Some CONTAINS, value_c = Some ''Green''\<rparr>
     = Inr False"
proof -
  let ?vs = "[\<lparr>id_v = ''v'', value_v = Some (Str ''  Hello World  '')\<rparr>,
      \<lparr>id_v = ''w'', value_v = Some (Arr [''red'', ''green''])\<rparr>]"
  let ?c1 = "\<lparr>variableId = Some ''v'', comparisonOperator = Some CONTAINS, value_c = Some ''hello''\<rparr>"
  let ?c2 = "\<lparr>variableId = Some ''v'', comparisonOperator = Some CONTAINS, value_c = Some []\<rparr>"
  let ?c3 = "\<lparr>variableId = Some ''w'', comparisonOperator = Some CONTAINS, value_c = Some ''green''\<rparr>"
  let ?c4 = "\<lparr>variableId = Some ''w'', comparisonOperator = Some CONTAINS, value_c = Some ''Green''\<rparr>"
  have c1: "\<not> falsy (variableId ?c1)" "comparisonOperator ?c1 = Some CONTAINS"
    "resolveInputValue ?vs (stringOf (variableId ?c1)) = Str ''  Hello World  ''"
    "resolveValue sampleRuntime ?vs (value_c ?c1) = Str ''hello''"
    by (simp_all add: resolveInputValue_def resolveValue_def sample_defs)
  have c2: "\<not> falsy (variableId ?c2)" "comparisonOperator ?c2 = Some CONTAINS"
    "resolveInputValue ?vs (stringOf (variableId ?c2)) = Str ''  Hello World  ''"
    "resolveValue sampleRuntime ?vs (value_c ?c2) = Str []"
    by (simp_all add: resolveInputValue_def resolveValue_def sample_defs)
  have c3: "\<not> falsy (variableId ?c3)" "comparisonOperator ?c3 = Some CONTAINS"
    "resolveInputValue ?vs (stringOf (variableId ?c3)) = Arr [''red'', ''green'']"
    "resolveValue sampleRuntime ?vs (value_c ?c3) = Str ''green''"
    by (simp_all add: resolveInputValue_def resolveValue_def sample_defs)
  have c4: "\<not> falsy (variableId ?c4)" "comparisonOperator ?c4 = Some CONTAINS"
    "resolveInputValue ?vs (stringOf (variableId ?c4)) = Arr [''red'', ''green'']"
    "resolveValue sampleRuntime ?vs (value_c ?c4) = Str ''Green''"
    by (simp_all add: resolveInputValue_def resolveValue_def sample_defs)
  have l: "lowered sampleRuntime ''  Hello World  '' = ''hello world''"
    "lowered sampleRuntime ''hello'' = ''hello''"
    by (simp_all add: lowered_def sample_defs)
  have n: "normalize_s sampleRuntime = (\<lambda>s. s)"
    by (simp add: sampleRuntime_def)
  from contains_semantics[OF c1, of "[]" "''hello''" "[]" "''  Hello World  ''"]
       contains_semantics[OF c2, of "[]" "[]" "[]" "''  Hello World  ''"]
       contains_semantics[OF c3, of "[''red'', ''green'']" "''green''" "[]" "[]"]
       contains_semantics[OF c4, of "[''red'', ''green'']" "''Green''" "[]" "[]"]
       l n
  show ?thesis by simp
qed

subsection \<open>C6: GREATER and LESS\<close>

text \<open>
  C6: for a comparison that names a variable, with \<open>a\<close> the value of the variable and \<open>b\<close>
  the right-hand side,
  \<^item> on two strings GREATER and LESS compare \<^verbatim>\<open>Number\<close> of each string, or \<^verbatim>\<open>Date.parse\<close>
    of it where \<^verbatim>\<open>Number\<close> is \<open>NaN\<close>;
  \<^item> so \<^verbatim>\<open>"10"\<close> is GREATER than \<^verbatim>\<open>"2"\<close> for every runtime that reads these two numerals;
  \<^item> when one side is a string that neither \<^verbatim>\<open>Number\<close> nor \<^verbatim>\<open>Date.parse\<close> reads, both
    operators are \<open>False\<close>, whatever the other side is;
  \<^item> when one side is \<^verbatim>\<open>null\<close>, both operators are \<open>False\<close>.
\<close>

theorem greater_less_numeric:
  "\<not> falsy (variableId c) \<Longrightarrow>
   resolveInputValue variables (stringOf (variableId c)) = a \<Longrightarrow>
   resolveValue E variables (value_c c) = b \<Longrightarrow>
     (a = Str s \<and> b = Str t \<longrightarrow>
        executeComparison E variables (c\<lparr>comparisonOperator := Some GREATER\<rparr>)
          = Inr (js_gt (if Number_s E s = NaN then Date_parse E s else Number_s E s)
                       (if Number_s E t = NaN then Date_parse E t else Number_s E t)) \<and>
        executeComparison E variables (c\<lparr>comparisonOperator := Some LESS\<rparr>)
          = Inr (js_gt (if Number_s E t = NaN then Date_parse E t else Number_s E t)
                       (if Number_s E s = NaN then Date_parse E s else Number_s E s))) \<and>
     (a = Str ''10'' \<and> b = Str ''2'' \<and> Number_s E ''10'' = Fin 10 \<and> Number_s E ''2'' = Fin 2 \<longrightarrow>
        executeComparison E variables (c\<lparr>comparisonOperator := Some GREATER\<rparr>) = Inr True) \<and>
     ((a = Str u \<or> b = Str u) \<and> Number_s E u = NaN \<and> Date_parse E u = NaN \<longrightarrow>
        executeComparison E variables (c\<lparr>comparisonOperator := Some GREATER\<rparr>) = Inr False \<and>
        executeComparison E variables (c\<lparr>comparisonOperator := Some LESS\<rparr>) = Inr False) \<and>
     (a = Null \<or> b = Null \<longrightarrow>
        executeComparison E variables (c\<lparr>comparisonOperator := Some GREATER\<rparr>) = Inr False \<and>
        executeComparison E variables (c\<lparr>comparisonOperator := Some LESS\<rparr>) = Inr False)"
proof -
  assume h: "\<not> falsy (variableId c)"
    "resolveInputValue variables (stringOf (variableId c)) = a"
    "resolveValue E variables (value_c c) = b"
  have g: "executeComparison E variables (c\<lparr>comparisonOperator := Some GREATER\<rparr>)
             = switchOperator E GREATER a b"
    and l: "executeComparison E variables (c\<lparr>comparisonOperator := Some LESS\<rparr>)
             = switchOperator E LESS a b"
    using h by (simp_all add: executeComparison_def)
  have strs: "a = Str s \<and> b = Str t \<longrightarrow>
        switchOperator E GREATER a b
          = Inr (js_gt (if Number_s E s = NaN then Date_parse E s else Number_s E s)
                       (if Number_s E t = NaN then Date_parse E t else Number_s E t)) \<and>
        switchOperator E LESS a b
          = Inr (js_gt (if Number_s E t = NaN then Date_parse E t else Number_s E t)
                       (if Number_s E s = NaN then Date_parse E s else Number_s E s))"
    by (simp add: parseDateOrNumber_def isNaN_def isNotDefined_def js_lt_def Let_def)
  have ten: "a = Str ''10'' \<and> b = Str ''2'' \<and> Number_s E ''10'' = Fin 10 \<and> Number_s E ''2'' = Fin 2 \<longrightarrow>
        switchOperator E GREATER a b = Inr True"
    by (simp add: parseDateOrNumber_def isNaN_def isNotDefined_def Let_def)
  have nan: "(a = Str u \<or> b = Str u) \<and> Number_s E u = NaN \<and> Date_parse E u = NaN \<longrightarrow>
        switchOperator E GREATER a b = Inr False \<and> switchOperator E LESS a b = Inr False"
    by (cases a; cases b)
       (auto simp: parseDateOrNumber_def isNaN_def isNotDefined_def js_lt_def Let_def)
  have null: "a = Null \<or> b = Null \<longrightarrow>
        switchOperator E GREATER a b = Inr False \<and> switchOperator E LESS a b = Inr False"
    by (auto simp: isNotDefined_def)
  from strs ten nan null show ?thesis unfolding g l by blast
qed

theorem greater_less_numeric_witness:
  "\<not> falsy (Some ''v'') \<and>
   executeComparison sampleRuntime
     [\<lparr>id_v = ''v'', value_v = Some (Str ''10'')\<rparr>, \<lparr>id_v = ''w'', value_v = Some (Str ''abc'')\<rparr>]
     \<lparr>variableId = Some ''v'', comparisonOperator = Some GREATER, value_c = Some ''2''\<rparr> = Inr True \<and>
   executeComparison sampleRuntime
     [\<lparr>id_v = ''v'', value_v = Some (Str ''10'')\<rparr>, \<lparr>id_v = ''w'', value_v = Some (Str ''abc'')\<rparr>]
     \<lparr>variableId = Some ''v'', comparisonOperator = Some LESS, value_c = Some ''2''\<rparr> = Inr False \<and>
   executeComparison sampleRuntime
     [\<lparr>id_v = ''v'', value_v = Some (Str ''10'')\<rparr>, \<lparr>id_v = ''w'', value_v = Some (Str ''abc'')\<rparr>]
     \<lparr>variableId = Some ''w'', comparisonOperator = Some GREATER, value_c = Some ''2''\<rparr> = Inr False \<and>
   executeComparison sampleRuntime
     [\<lparr>id_v = ''v'', value_v = Some (Str ''10'')\<rparr>, \<lparr>id_v = ''w'', value_v = Some (Str ''abc'')\<rparr>]
     \<lparr>variableId = Some ''w'', comparisonOperator = Some LESS, value_c = Some ''2''\<rparr> = Inr False \<and>
   executeComparison sampleRuntime
     [\<lparr>id_v = ''v'', value_v = Some (Str ''10'')\<rparr>, \<lparr>id_v = ''w'', value_v = Some (Str ''abc'')\<rparr>]
     \<lparr>variableId = Some ''v'', comparisonOperator = Some GREATER, value_c = Some ''null''\<rparr> = Inr False"
proof -
  let ?vs = "[\<lparr>id_v = ''v'', value_v = Some (Str ''10'')\<rparr>, \<lparr>id_v = ''w'', value_v = Some (Str ''abc'')\<rparr>]"
  let ?cv = "\<lparr>variableId = Some ''v'', comparisonOperator = None, value_c = Some ''2''\<rparr>"
  let ?cw = "\<lparr>variableId = Some ''w'', comparisonOperator = None, value_c = Some ''2''\<rparr>"
  let ?cn = "\<lparr>variableId = Some ''v'', comparisonOperator = None, value_c = Some ''null''\<rparr>"
  have num: "Number_s sampleRuntime ''10'' = Fin 10" "Number_s sampleRuntime ''2'' = Fin 2"
    "Number_s sampleRuntime ''abc'' = NaN" "Date_parse sampleRuntime ''abc'' = NaN"
    by (simp_all add: sample_defs)
  have v: "\<not> falsy (variableId ?cv)"
    "resolveInputValue ?vs (stringOf (variableId ?cv)) = Str ''10''"
    "resolveValue sampleRuntime ?vs (value_c ?cv) = Str ''2''"
    by (simp_all add: resolveInputValue_def resolveValue_def sample_defs)
  have w: "\<not> falsy (variableId ?cw)"
    "resolveInputValue ?vs (stringOf (variableId ?cw)) = Str ''abc''"
    "resolveValue sampleRuntime ?vs (value_c ?cw) = Str ''2''"
    by (simp_all add: resolveInputValue_def resolveValue_def sample_defs)
  have n: "\<not> falsy (variableId ?cn)"
    "resolveInputValue ?vs (stringOf (variableId ?cn)) = Str ''10''"
    "resolveValue sampleRuntime ?vs (value_c ?cn) = Null"
    by (simp_all add: resolveInputValue_def resolveValue_def sample_defs)
  from greater_less_numeric[OF v, of "''10''" "''2''" "''abc''"]
       greater_less_numeric[OF w, of "''abc''" "''2''" "''abc''"]
       greater_less_numeric[OF n, of "''10''" "''2''" "''abc''"] num
  show ?thesis by simp
qed

subsection \<open>C7: STRING_SIMILARITY\<close>

text \<open>
  The loop over the candidates keeps the greatest score seen so far, starting from 0; a
  score that is \<open>NaN\<close> is never kept. Its result exceeds a threshold exactly when the
  start does or the score of some candidate does.
\<close>

lemma js_gt_trans: "js_gt x y \<Longrightarrow> js_gt y z \<Longrightarrow> js_gt x z"
  by (cases x; cases y; cases z) auto

lemma js_gt_total: "x \<noteq> NaN \<Longrightarrow> y \<noteq> NaN \<Longrightarrow> \<not> js_gt x y \<Longrightarrow> js_gt x z \<Longrightarrow> js_gt y z"
  by (cases x; cases y; cases z) auto

lemma js_gt_not_NaN: "js_gt x y \<Longrightarrow> x \<noteq> NaN"
  by (cases x) auto

lemma similarityLoop_exceeds:
  "m \<noteq> NaN \<Longrightarrow>
     js_gt (similarityLoop score cs m) t \<longleftrightarrow> js_gt m t \<or> (\<exists>c\<in>set cs. js_gt (score c) t)"
proof (induction cs arbitrary: m)
  case Nil
  then show ?case by simp
next
  case (Cons c cs)
  show ?case
  proof (cases "js_gt (score c) m")
    case True
    then have "score c \<noteq> NaN" by (rule js_gt_not_NaN)
    from Cons.IH[OF this] True show ?thesis
      by (auto simp: Let_def dest: js_gt_trans)
  next
    case False
    have "js_gt (score c) t \<Longrightarrow> js_gt m t"
      using False Cons.prems js_gt_total[of "score c" m t] js_gt_not_NaN[of "score c" t] by blast
    with Cons.IH[OF Cons.prems] False show ?thesis
      by (auto simp: Let_def)
  qed
qed

lemma stringSimilarity_exceeds:
  "stringSimilarity E (Str s) (Str t)
     = Inr (\<exists>val\<in>set (split t CHR ''|''). js_gt (compareStringsBagOfNumbers E s val) (Fin 0.5))"
  by (simp add: stringSimilarity_def similarityLoop_exceeds)

text \<open>
  The loops of \<^verbatim>\<open>levenshtein\<close> keep the shape of the matrix, \<open>m + 1\<close> rows of \<open>n + 1\<close> cells:
  every cell they read or write, with \<open>i\<close> from 1 to \<open>m\<close> and \<open>j\<close> from 1 to \<open>n\<close>, exists.
\<close>

lemma shape_setCell: "map length (setCell M i j v) = map length M"
proof (cases "i < length M")
  case True
  then have "(map length M)[i := length (M ! i)] = map length M"
    by (metis list_update_id nth_map)
  with True show ?thesis by (simp add: setCell_def map_update)
next
  case False
  then show ?thesis by (simp add: setCell_def list_update_beyond)
qed

lemma shape_foldl:
  "(\<And>M x. map length (f M x) = map length M) \<Longrightarrow> map length (foldl f M xs) = map length M"
  by (induction xs arbitrary: M) simp_all

lemma shape_fillCell: "map length (fillCell str1 str2 i M j) = map length M"
  by (simp add: fillCell_def Let_def shape_setCell)

lemma shape_fillRow: "map length (fillRow str1 str2 n M i) = map length M"
  unfolding fillRow_def by (rule shape_foldl) (rule shape_fillCell)

lemma shape_initMatrix: "map length (initMatrix m n) = replicate (m + 1) (n + 1)"
proof -
  have "map length (initMatrix m n) = map length (replicate (m + 1) (replicate (n + 1) (0::nat)))"
    unfolding initMatrix_def
    by (simp only: shape_foldl[of "\<lambda>matrix j. setCell matrix 0 j j", OF shape_setCell]
          shape_foldl[of "\<lambda>matrix i. setCell matrix i 0 i", OF shape_setCell])
  then show ?thesis by (simp del: replicate_Suc replicate.simps)
qed

lemma shape_levenshtein:
  "map length (foldl (fillRow str1 str2 (length str2)) (initMatrix (length str1) (length str2)) xs)
     = replicate (length str1 + 1) (length str2 + 1)"
  by (simp only: shape_foldl[of "fillRow str1 str2 (length str2)", OF shape_fillRow] shape_initMatrix)

text \<open>
  The distance of a string to the empty string is its length: \<^verbatim>\<open>compararValores\<close>, which
  does not split an empty target, returns what splitting it would have given.
\<close>

lemma length_setCell [simp]: "length (setCell M i j v) = length M"
  by (simp add: setCell_def)

lemma setCell_row:
  "r < length M \<Longrightarrow> setCell M i j v ! r = (if r = i then (M ! r)[j := v] else M ! r)"
  by (simp add: setCell_def nth_list_update)

lemma firstColumn:
  "length M = n \<Longrightarrow> (\<forall>r<n. 0 < length (M ! r)) \<Longrightarrow> k \<le> n \<Longrightarrow>
     length (foldl (\<lambda>matrix i. setCell matrix i 0 i) M [0..<k]) = n \<and>
     (\<forall>r<n. 0 < length (foldl (\<lambda>matrix i. setCell matrix i 0 i) M [0..<k] ! r) \<and>
             foldl (\<lambda>matrix i. setCell matrix i 0 i) M [0..<k] ! r ! 0 = (if r < k then r else M ! r ! 0))"
proof (induction k)
  case 0
  then show ?case by simp
next
  case (Suc k)
  let ?F = "foldl (\<lambda>matrix i. setCell matrix i 0 i) M [0..<k]"
  from Suc have ih: "length ?F = n"
    "\<forall>r<n. 0 < length (?F ! r) \<and> ?F ! r ! 0 = (if r < k then r else M ! r ! 0)"
    by simp_all
  have step: "foldl (\<lambda>matrix i. setCell matrix i 0 i) M [0..<Suc k] = setCell ?F k 0 k"
    by simp
  have "\<forall>r<n. 0 < length (setCell ?F k 0 k ! r) \<and>
               setCell ?F k 0 k ! r ! 0 = (if r < Suc k then r else M ! r ! 0)"
  proof (intro allI impI)
    fix r assume r: "r < n"
    with ih have f: "0 < length (?F ! r)" "?F ! r ! 0 = (if r < k then r else M ! r ! 0)"
      by simp_all
    show "0 < length (setCell ?F k 0 k ! r) \<and>
               setCell ?F k 0 k ! r ! 0 = (if r < Suc k then r else M ! r ! 0)"
    proof (cases "r = k")
      case True
      with r ih(1) f show ?thesis by (simp add: setCell_row)
    next
      case False
      with r ih(1) f show ?thesis by (simp add: setCell_row)
    qed
  qed
  with ih(1) show ?case unfolding step by simp
qed

lemma foldl_fillRow_empty: "foldl (fillRow s [] 0) M xs = M"
  by (induction xs) (simp_all add: fillRow_def)

lemma levenshtein_empty: "levenshtein s [] = length s"
proof -
  let ?M0 = "replicate (length s + 1) (replicate (0 + 1) (0::nat))"
  let ?M1 = "foldl (\<lambda>matrix i. setCell matrix i 0 i) ?M0 [0..<length s + 1]"
  have "length ?M1 = length s + 1 \<and>
     (\<forall>r<length s + 1. 0 < length (?M1 ! r) \<and>
        ?M1 ! r ! 0 = (if r < length s + 1 then r else ?M0 ! r ! 0))"
    by (rule firstColumn) (simp_all del: replicate_Suc replicate.simps)
  then have m1: "length ?M1 = length s + 1" "0 < length (?M1 ! length s)"
    "?M1 ! length s ! 0 = length s" "0 < length (?M1 ! 0)"
    by simp_all
  have "levenshtein s [] = setCell ?M1 0 0 0 ! length s ! 0"
    by (simp add: levenshtein_def initMatrix_def Let_def foldl_fillRow_empty)
  also have "\<dots> = length s"
  proof (cases "length s = 0")
    case True
    with m1 show ?thesis by (simp add: setCell_row)
  next
    case False
    with m1 show ?thesis by (simp add: setCell_row)
  qed
  finally show ?thesis .
qed

lemma score_lev_empty: "\<not> js_gt (compareStringsBagOfNumbers_lev s []) (Fin 0.8)"
  by (cases "s = []")
     (simp_all add: compareStringsBagOfNumbers_lev_def levenshtein_empty js_div_def)

lemma compararValores_exceeds:
  "compararValores (Str s) (Str t)
     = (\<exists>val\<in>set (split t CHR ''|''). js_gt (compareStringsBagOfNumbers_lev s val) (Fin 0.8))"
proof (cases "t = []")
  case True
  with score_lev_empty[of s] show ?thesis by (simp add: compararValores_def)
next
  case False
  then show ?thesis by (simp add: compararValores_def similarityLoop_exceeds)
qed

text \<open>
  The scores of the examples. The cosine of \<^verbatim>\<open>Hello\<close> and \<^verbatim>\<open>Hello\<close> is 0.9999999999999999
  in doubles and not 1, the one of \<^verbatim>\<open>Xyz\<close> and \<^verbatim>\<open>Hey\<close> is 0.33333333333333337.
\<close>

lemma cosine_from_bags:
  assumes "getBagOfNumbers E s1 = bag1" "getBagOfNumbers E s2 = bag2"
    and "ownKeys (foldl (\<lambda>obj c. setKey c True obj)
                   (foldl (\<lambda>obj c. setKey c True obj) [] (ownKeys bag1)) (ownKeys bag2)) = ks"
    and "map (countOf bag1) ks = vec1" "map (countOf bag2) ks = vec2"
    and "foldl squareStep 0 vec1 = a" "foldl squareStep 0 vec2 = b"
    and "foldl dotStep 0 (zip vec1 vec2) = d"
    and "0 < a" "0 < b"
  shows "compareStringsBagOfNumbers E s1 s2 = js_divide d (fl (fl (sqrt a) * fl (sqrt b)))"
  unfolding compareStringsBagOfNumbers_def Let_def assms(1-8) using assms(9,10) by simp

lemmas lev_defs = levenshtein_def initMatrix_def fillRow_def fillCell_def setCell_def Let_def

lemmas bag_defs = getBagOfNumbers_def sampleRuntime_def lowerChar_def

lemma bag_Hello: "getBagOfNumbers sampleRuntime ''Hello''
    = [(CHR ''h'', 1), (CHR ''e'', 1), (CHR ''l'', 2), (CHR ''o'', 1)]"
  by (simp add: bag_defs)

lemma bag_Xyz: "getBagOfNumbers sampleRuntime ''Xyz'' = [(CHR ''x'', 1), (CHR ''y'', 1), (CHR ''z'', 1)]"
  by (simp add: bag_defs)

lemma bag_Hi: "getBagOfNumbers sampleRuntime ''Hi'' = [(CHR ''h'', 1), (CHR ''i'', 1)]"
  by (simp add: bag_defs)

lemma bag_Hey: "getBagOfNumbers sampleRuntime ''Hey'' = [(CHR ''h'', 1), (CHR ''e'', 1), (CHR ''y'', 1)]"
  by (simp add: bag_defs)

lemma cosine_Hello_Hello:
  "compareStringsBagOfNumbers sampleRuntime ''Hello'' ''Hello'' = Fin (9007199254740991 / 2 ^ 53)"
proof -
  have ks: "ownKeys (foldl (\<lambda>obj c. setKey c True obj)
              (foldl (\<lambda>obj c. setKey c True obj) []
                 (ownKeys [(CHR ''h'', 1::nat), (CHR ''e'', 1), (CHR ''l'', 2), (CHR ''o'', 1)]))
              (ownKeys [(CHR ''h'', 1::nat), (CHR ''e'', 1), (CHR ''l'', 2), (CHR ''o'', 1)])) = ''helo''"
    by (simp add: ownKeys_def isIndexKey_def)
  have v: "map (countOf [(CHR ''h'', 1), (CHR ''e'', 1), (CHR ''l'', 2), (CHR ''o'', 1)]) ''helo''
             = [1, 1, 2, 1]"
    by (simp add: countOf_def)
  have a: "foldl squareStep 0 [1, 1, 2, 1] = 7"
    by (simp add: squareStep_def)
  have d: "foldl dotStep 0 (zip [1, 1, 2, 1] [1, 1, 2, 1]) = 7"
    by (simp add: dotStep_def)
  have "compareStringsBagOfNumbers sampleRuntime ''Hello'' ''Hello''
          = js_divide 7 (fl (fl (sqrt 7) * fl (sqrt 7)))"
    by (rule cosine_from_bags[OF bag_Hello bag_Hello ks v v a a d]) simp_all
  then show ?thesis by (simp only: score_7_7_7)
qed

lemma cosine_Xyz_Hi: "compareStringsBagOfNumbers sampleRuntime ''Xyz'' ''Hi'' = Fin 0"
proof -
  have ks: "ownKeys (foldl (\<lambda>obj c. setKey c True obj)
              (foldl (\<lambda>obj c. setKey c True obj) []
                 (ownKeys [(CHR ''x'', 1::nat), (CHR ''y'', 1), (CHR ''z'', 1)]))
              (ownKeys [(CHR ''h'', 1::nat), (CHR ''i'', 1)])) = ''xyzhi''"
    by (simp add: ownKeys_def isIndexKey_def)
  have v1: "map (countOf [(CHR ''x'', 1), (CHR ''y'', 1), (CHR ''z'', 1)]) ''xyzhi'' = [1, 1, 1, 0, 0]"
    by (simp add: countOf_def)
  have v2: "map (countOf [(CHR ''h'', 1), (CHR ''i'', 1)]) ''xyzhi'' = [0, 0, 0, 1, 1]"
    by (simp add: countOf_def)
  have a: "foldl squareStep 0 [1, 1, 1, 0, 0] = 3"
    by (simp add: squareStep_def)
  have b: "foldl squareStep 0 [0, 0, 0, 1, 1] = 2"
    by (simp add: squareStep_def)
  have d: "foldl dotStep 0 (zip [1, 1, 1, 0, 0] [0, 0, 0, 1, 1]) = 0"
    by (simp add: dotStep_def)
  have "compareStringsBagOfNumbers sampleRuntime ''Xyz'' ''Hi''
          = js_divide 0 (fl (fl (sqrt 3) * fl (sqrt 2)))"
    by (rule cosine_from_bags[OF bag_Xyz bag_Hi ks v1 v2 a b d]) simp_all
  then show ?thesis by (simp add: score_0)
qed

lemma cosine_Xyz_Hello: "compareStringsBagOfNumbers sampleRuntime ''Xyz'' ''Hello'' = Fin 0"
proof -
  have ks: "ownKeys (foldl (\<lambda>obj c. setKey c True obj)
              (foldl (\<lambda>obj c. setKey c True obj) []
                 (ownKeys [(CHR ''x'', 1::nat), (CHR ''y'', 1), (CHR ''z'', 1)]))
              (ownKeys [(CHR ''h'', 1::nat), (CHR ''e'', 1), (CHR ''l'', 2), (CHR ''o'', 1)])) = ''xyzhelo''"
    by (simp add: ownKeys_def isIndexKey_def)
  have v1: "map (countOf [(CHR ''x'', 1), (CHR ''y'', 1), (CHR ''z'', 1)]) ''xyzhelo''
              = [1, 1, 1, 0, 0, 0, 0]"
    by (simp add: countOf_def)
  have v2: "map (countOf [(CHR ''h'', 1), (CHR ''e'', 1), (CHR ''l'', 2), (CHR ''o'', 1)]) ''xyzhelo''
              = [0, 0, 0, 1, 1, 2, 1]"
    by (simp add: countOf_def)
  have a: "foldl squareStep 0 [1, 1, 1, 0, 0, 0, 0] = 3"
    by (simp add: squareStep_def)
  have b: "foldl squareStep 0 [0, 0, 0, 1, 1, 2, 1] = 7"
    by (simp add: squareStep_def)
  have d: "foldl dotStep 0 (zip [1, 1, 1, 0, 0, 0, 0] [0, 0, 0, 1, 1, 2, 1]) = 0"
    by (simp add: dotStep_def)
  have "compareStringsBagOfNumbers sampleRuntime ''Xyz'' ''Hello''
          = js_divide 0 (fl (fl (sqrt 3) * fl (sqrt 7)))"
    by (rule cosine_from_bags[OF bag_Xyz bag_Hello ks v1 v2 a b d]) simp_all
  then show ?thesis by (simp add: score_0)
qed

lemma cosine_Xyz_Hey:
  "compareStringsBagOfNumbers sampleRuntime ''Xyz'' ''Hey'' = Fin (6004799503160662 / 2 ^ 54)"
proof -
  have ks: "ownKeys (foldl (\<lambda>obj c. setKey c True obj)
              (foldl (\<lambda>obj c. setKey c True obj) []
                 (ownKeys [(CHR ''x'', 1::nat), (CHR ''y'', 1), (CHR ''z'', 1)]))
              (ownKeys [(CHR ''h'', 1::nat), (CHR ''e'', 1), (CHR ''y'', 1)])) = ''xyzhe''"
    by (simp add: ownKeys_def isIndexKey_def)
  have v1: "map (countOf [(CHR ''x'', 1), (CHR ''y'', 1), (CHR ''z'', 1)]) ''xyzhe'' = [1, 1, 1, 0, 0]"
    by (simp add: countOf_def)
  have v2: "map (countOf [(CHR ''h'', 1), (CHR ''e'', 1), (CHR ''y'', 1)]) ''xyzhe'' = [0, 1, 0, 1, 1]"
    by (simp add: countOf_def)
  have a: "foldl squareStep 0 [1, 1, 1, 0, 0] = 3"
    by (simp add: squareStep_def)
  have b: "foldl squareStep 0 [0, 1, 0, 1, 1] = 3"
    by (simp add: squareStep_def)
  have d: "foldl dotStep 0 (zip [1, 1, 1, 0, 0] [0, 1, 0, 1, 1]) = 1"
    by (simp add: dotStep_def)
  have "compareStringsBagOfNumbers sampleRuntime ''Xyz'' ''Hey''
          = js_divide 1 (fl (fl (sqrt 3) * fl (sqrt 3)))"
    by (rule cosine_from_bags[OF bag_Xyz bag_Hey ks v1 v2 a b d]) simp_all
  then show ?thesis by (simp only: score_1_3_3)
qed

lemma bag_bcdd: "getBagOfNumbers sampleRuntime ''bcdd'' = [(CHR ''b'', 1), (CHR ''c'', 1), (CHR ''d'', 2)]"
  by (simp add: bag_defs)

lemma bag_abcc: "getBagOfNumbers sampleRuntime ''abcc'' = [(CHR ''a'', 1), (CHR ''b'', 1), (CHR ''c'', 2)]"
  by (simp add: bag_defs)

lemma cosine_bcdd_abcc:
  "compareStringsBagOfNumbers sampleRuntime ''bcdd'' ''abcc'' = Fin (4503599627370497 / 2 ^ 53)"
proof -
  have ks: "ownKeys (foldl (\<lambda>obj c. setKey c True obj)
              (foldl (\<lambda>obj c. setKey c True obj) []
                 (ownKeys [(CHR ''b'', 1::nat), (CHR ''c'', 1), (CHR ''d'', 2)]))
              (ownKeys [(CHR ''a'', 1::nat), (CHR ''b'', 1), (CHR ''c'', 2)])) = ''bcda''"
    by (simp add: ownKeys_def isIndexKey_def)
  have v1: "map (countOf [(CHR ''b'', 1), (CHR ''c'', 1), (CHR ''d'', 2)]) ''bcda'' = [1, 1, 2, 0]"
    by (simp add: countOf_def)
  have v2: "map (countOf [(CHR ''a'', 1), (CHR ''b'', 1), (CHR ''c'', 2)]) ''bcda'' = [1, 2, 0, 1]"
    by (simp add: countOf_def)
  have a: "foldl squareStep 0 [1, 1, 2, 0] = 6"
    by (simp add: squareStep_def)
  have b: "foldl squareStep 0 [1, 2, 0, 1] = 6"
    by (simp add: squareStep_def)
  have d: "foldl dotStep 0 (zip [1, 1, 2, 0] [1, 2, 0, 1]) = 3"
    by (simp add: dotStep_def)
  have "compareStringsBagOfNumbers sampleRuntime ''bcdd'' ''abcc''
          = js_divide 3 (fl (fl (sqrt 6) * fl (sqrt 6)))"
    by (rule cosine_from_bags[OF bag_bcdd bag_abcc ks v1 v2 a b d]) simp_all
  then show ?thesis by (simp only: score_3_6_6)
qed

lemma levenshtein_examples:
  "levenshtein ''Hello'' ''Hello'' = 0" "levenshtein ''Xyz'' ''Hi'' = 3"
  "levenshtein ''Xyz'' ''Hello'' = 5" "levenshtein ''Xyz'' ''Hey'' = 3"
  by (simp_all add: lev_defs)

lemma split_example: "split ''Hi|Hello|Hey'' CHR ''|'' = [''Hi'', ''Hello'', ''Hey'']"
  by simp

lemma lev_score_examples:
  "compareStringsBagOfNumbers_lev ''Hello'' ''Hello'' = Fin 1"
  "compareStringsBagOfNumbers_lev ''Xyz'' ''Hi'' = Fin 0"
  "compareStringsBagOfNumbers_lev ''Xyz'' ''Hello'' = Fin 0"
  "compareStringsBagOfNumbers_lev ''Xyz'' ''Hey'' = Fin 0"
  by (simp_all add: compareStringsBagOfNumbers_lev_def levenshtein_examples js_div_def)

lemma similarity_examples:
  "executeComparison sampleRuntime [\<lparr>id_v = ''v'', value_v = Some (Str ''Hello'')\<rparr>]
     \<lparr>variableId = Some ''v'', comparisonOperator = Some STRING_SIMILARITY,
      value_c = Some ''Hi|Hello|Hey''\<rparr> = Inr True"
  "executeComparison sampleRuntime [\<lparr>id_v = ''v'', value_v = Some (Str ''Xyz'')\<rparr>]
     \<lparr>variableId = Some ''v'', comparisonOperator = Some STRING_SIMILARITY,
      value_c = Some ''Hi|Hello|Hey''\<rparr> = Inr False"
  "executeComparison_lev sampleRuntime [\<lparr>id_v = ''v'', value_v = Some (Str ''Hello'')\<rparr>]
     \<lparr>variableId = Some ''v'', comparisonOperator = Some STRING_SIMILARITY,
      value_c = Some ''Hi|Hello|Hey''\<rparr> = Inr True"
  "executeComparison_lev sampleRuntime [\<lparr>id_v = ''v'', value_v = Some (Str ''Xyz'')\<rparr>]
     \<lparr>variableId = Some ''v'', comparisonOperator = Some STRING_SIMILARITY,
      value_c = Some ''Hi|Hello|Hey''\<rparr> = Inr False"
proof -
  have r: "resolveValue sampleRuntime vs (Some ''Hi|Hello|Hey'') = Str ''Hi|Hello|Hey''" for vs
    by (simp add: resolveValue_def sampleRuntime_def)
  show "executeComparison sampleRuntime [\<lparr>id_v = ''v'', value_v = Some (Str ''Hello'')\<rparr>]
     \<lparr>variableId = Some ''v'', comparisonOperator = Some STRING_SIMILARITY,
      value_c = Some ''Hi|Hello|Hey''\<rparr> = Inr True"
    by (simp add: executeComparison_def resolveInputValue_def r stringSimilarity_exceeds
          split_example cosine_Hello_Hello)
  show "executeComparison sampleRuntime [\<lparr>id_v = ''v'', value_v = Some (Str ''Xyz'')\<rparr>]
     \<lparr>variableId = Some ''v'', comparisonOperator = Some STRING_SIMILARITY,
      value_c = Some ''Hi|Hello|Hey''\<rparr> = Inr False"
    by (simp add: executeComparison_def resolveInputValue_def r stringSimilarity_exceeds
          split_example cosine_Xyz_Hi cosine_Xyz_Hello cosine_Xyz_Hey)
  show "executeComparison_lev sampleRuntime [\<lparr>id_v = ''v'', value_v = Some (Str ''Hello'')\<rparr>]
     \<lparr>variableId = Some ''v'', comparisonOperator = Some STRING_SIMILARITY,
      value_c = Some ''Hi|Hello|Hey''\<rparr> = Inr True"
    by (simp add: executeComparison_lev_def resolveInputValue_def r compararValores_exceeds
          split_example lev_score_examples)
  show "executeComparison_lev sampleRuntime [\<lparr>id_v = ''v'', value_v = Some (Str ''Xyz'')\<rparr>]
     \<lparr>variableId = Some ''v'', comparisonOperator = Some STRING_SIMILARITY,
      value_c = Some ''Hi|Hello|Hey''\<rparr> = Inr False"
    by (simp add: executeComparison_lev_def resolveInputValue_def r compararValores_exceeds
          split_example lev_score_examples)
qed

text \<open>
  Rounding decides at the threshold. The input \<^verbatim>\<open>bcdd\<close> and the target \<^verbatim>\<open>abcc\<close> have the dot
  product 3 and the sums of squares 6 and 6: their cosine is one half in the reals, which
  does not exceed the threshold. In doubles, the product of \<^verbatim>\<open>Math.sqrt(6)\<close> with itself is
  5.999999999999999 and the score is 0.5000000000000001, which does: the comparison is
  \<open>True\<close>, as the code returns.
\<close>

lemma rounded_score_exceeds_threshold:
  "executeComparison sampleRuntime [\<lparr>id_v = ''v'', value_v = Some (Str ''bcdd'')\<rparr>]
     \<lparr>variableId = Some ''v'', comparisonOperator = Some STRING_SIMILARITY,
      value_c = Some ''abcc''\<rparr> = Inr True"
proof -
  have r: "resolveValue sampleRuntime vs (Some ''abcc'') = Str ''abcc''" for vs
    by (simp add: resolveValue_def sampleRuntime_def)
  show ?thesis
    by (simp add: executeComparison_def resolveInputValue_def r stringSimilarity_exceeds
          cosine_bcdd_abcc)
qed

text \<open>
  C7: for a STRING_SIMILARITY comparison that names a variable, with \<open>a\<close> the value of the
  variable and \<open>b\<close> the right-hand side,
  \<^item> when \<open>a\<close> is no string (it is \<^verbatim>\<open>null\<close> or an array), both variants return \<open>False\<close>;
  \<^item> when \<open>a\<close> and \<open>b\<close> are strings, the result is \<open>True\<close> exactly when the score of some
    candidate of \<open>b\<close> split at \<^verbatim>\<open>|\<close> exceeds the threshold, that is, when the greatest score
    does: the cosine of the character counts, as the arithmetic of doubles gives it, and
    0.5 in \<^verbatim>\<open>executeCondition.ts\<close>, the normalised Levenshtein distance and 0.8 in
    \<^verbatim>\<open>part_000\<close>;
  \<^item> in both variants the input \<^verbatim>\<open>Hello\<close> with the target \<^verbatim>\<open>Hi|Hello|Hey\<close> gives \<open>True\<close> and
    the input \<^verbatim>\<open>Xyz\<close> with the same target gives \<open>False\<close>.
\<close>

theorem string_similarity_threshold:
  "\<not> falsy (variableId c) \<Longrightarrow> comparisonOperator c = Some STRING_SIMILARITY \<Longrightarrow>
   resolveInputValue variables (stringOf (variableId c)) = a \<Longrightarrow>
   resolveValue E variables (value_c c) = b \<Longrightarrow>
     (\<not> isString a \<longrightarrow>
        executeComparison E variables c = Inr False \<and>
        executeComparison_lev E variables c = Inr False) \<and>
     (a = Str s \<and> b = Str t \<longrightarrow>
        executeComparison E variables c
          = Inr (\<exists>val\<in>set (split t CHR ''|'').
                   js_gt (compareStringsBagOfNumbers E s val) (Fin 0.5)) \<and>
        executeComparison_lev E variables c
          = Inr (\<exists>val\<in>set (split t CHR ''|'').
                   js_gt (compareStringsBagOfNumbers_lev s val) (Fin 0.8))) \<and>
     executeComparison sampleRuntime [\<lparr>id_v = ''v'', value_v = Some (Str ''Hello'')\<rparr>]
       \<lparr>variableId = Some ''v'', comparisonOperator = Some STRING_SIMILARITY,
        value_c = Some ''Hi|Hello|Hey''\<rparr> = Inr True \<and>
     executeComparison sampleRuntime [\<lparr>id_v = ''v'', value_v = Some (Str ''Xyz'')\<rparr>]
       \<lparr>variableId = Some ''v'', comparisonOperator = Some STRING_SIMILARITY,
        value_c = Some ''Hi|Hello|Hey''\<rparr> = Inr False \<and>
     executeComparison_lev sampleRuntime [\<lparr>id_v = ''v'', value_v = Some (Str ''Hello'')\<rparr>]
       \<lparr>variableId = Some ''v'', comparisonOperator = Some STRING_SIMILARITY,
        value_c = Some ''Hi|Hello|Hey''\<rparr> = Inr True \<and>
     executeComparison_lev sampleRuntime [\<lparr>id_v = ''v'', value_v = Some (Str ''Xyz'')\<rparr>]
       \<lparr>variableId = Some ''v'', comparisonOperator = Some STRING_SIMILARITY,
        value_c = Some ''Hi|Hello|Hey''\<rparr> = Inr False"
proof -
  assume h: "\<not> falsy (variableId c)" "comparisonOperator c = Some STRING_SIMILARITY"
    "resolveInputValue variables (stringOf (variableId c)) = a"
    "resolveValue E variables (value_c c) = b"
  have p: "executeComparison E variables c = stringSimilarity E a b"
    and l: "executeComparison_lev E variables c = Inr (compararValores a b)"
    using h by (simp_all add: executeComparison_def executeComparison_lev_def)
  have other: "\<not> isString a \<longrightarrow> stringSimilarity E a b = Inr False \<and> compararValores a b = False"
    by (cases a) (simp_all add: stringSimilarity_def compararValores_def)
  have strs: "a = Str s \<and> b = Str t \<longrightarrow>
        stringSimilarity E a b
          = Inr (\<exists>val\<in>set (split t CHR ''|'').
                   js_gt (compareStringsBagOfNumbers E s val) (Fin 0.5)) \<and>
        compararValores a b
          = (\<exists>val\<in>set (split t CHR ''|'').
                   js_gt (compareStringsBagOfNumbers_lev s val) (Fin 0.8))"
    using stringSimilarity_exceeds compararValores_exceeds by blast
  from other strs similarity_examples show ?thesis
    unfolding p l by simp
qed

theorem string_similarity_threshold_witness:
  "\<not> falsy (Some ''v'') \<and>
   executeComparison sampleRuntime [\<lparr>id_v = ''v'', value_v = Some (Arr [''Hello''])\<rparr>]
     \<lparr>variableId = Some ''v'', comparisonOperator = Some STRING_SIMILARITY,
      value_c = Some ''Hello''\<rparr> = Inr False \<and>
   executeComparison_lev sampleRuntime [\<lparr>id_v = ''v'', value_v = Some (Arr [''Hello''])\<rparr>]
     \<lparr>variableId = Some ''v'', comparisonOperator = Some STRING_SIMILARITY,
      value_c = Some ''Hello''\<rparr> = Inr False \<and>
   executeComparison sampleRuntime [\<lparr>id_v = ''v'', value_v = Some (Str ''Hello'')\<rparr>]
     \<lparr>variableId = Some ''v'', comparisonOperator = Some STRING_SIMILARITY,
      value_c = Some ''Hello''\<rparr> = Inr True \<and>
   executeComparison_lev sampleRuntime [\<lparr>id_v = ''v'', value_v = Some (Str ''Hello'')\<rparr>]
     \<lparr>variableId = Some ''v'', comparisonOperator = Some STRING_SIMILARITY,
      value_c = Some ''Hello''\<rparr> = Inr True"
proof -
  let ?c = "\<lparr>variableId = Some ''v'', comparisonOperator = Some STRING_SIMILARITY,
      value_c = Some ''Hello''\<rparr>"
  let ?va = "[\<lparr>id_v = ''v'', value_v = Some (Arr [''Hello''])\<rparr>]"
  let ?vs = "[\<lparr>id_v = ''v'', value_v = Some (Str ''Hello'')\<rparr>]"
  have c: "\<not> falsy (variableId ?c)" "comparisonOperator ?c = Some STRING_SIMILARITY"
    by simp_all
  have ra: "resolveInputValue ?va (stringOf (variableId ?c)) = Arr [''Hello'']"
    and rs: "resolveInputValue ?vs (stringOf (variableId ?c)) = Str ''Hello''"
    and rv: "resolveValue sampleRuntime vs (value_c ?c) = Str ''Hello''" for vs
    by (simp_all add: resolveInputValue_def resolveValue_def sampleRuntime_def)
  from string_similarity_threshold[OF c ra rv, of "''Hello''" "''Hello''"]
       string_similarity_threshold[OF c rs rv, of "''Hello''" "''Hello''"]
  show ?thesis
    by (simp add: cosine_Hello_Hello lev_score_examples)
qed

subsection \<open>C8: the two variants\<close>

text \<open>Outside STRING_SIMILARITY the two \<^verbatim>\<open>switch\<close> statements are the same.\<close>

lemma switchOperator_lev_eq:
  "operator \<noteq> STRING_SIMILARITY \<Longrightarrow> switchOperator_lev E operator a b = switchOperator E operator a b"
  by (cases operator) simp_all

lemma executeComparison_lev_eq:
  "comparisonOperator c \<noteq> Some STRING_SIMILARITY \<Longrightarrow>
     executeComparison_lev E variables c = executeComparison E variables c"
  by (auto simp: executeComparison_def executeComparison_lev_def switchOperator_lev_eq
        split: option.splits)

text \<open>
  The variants agree where STRING_SIMILARITY is not used: on every condition none of
  whose comparisons has that operator (a condition without comparisons is one),
  \<^verbatim>\<open>executeCondition\<close> of \<^verbatim>\<open>part_000\<close> and of \<^verbatim>\<open>executeCondition.ts\<close> return the same result,
  the same exception included.
\<close>

lemma variants_agree_without_similarity:
  assumes "\<forall>cs. comparisons condition = Some cs \<longrightarrow>
       (\<forall>c\<in>set cs. comparisonOperator c \<noteq> Some STRING_SIMILARITY)"
  shows "executeCondition_lev E condition variables = executeCondition E condition variables"
proof (cases "comparisons condition")
  case None
  then show ?thesis by (simp add: executeCondition_def executeCondition_lev_def)
next
  case (Some cs)
  with assms have "\<And>c. c \<in> set cs \<Longrightarrow>
      executeComparison_lev E variables c = executeComparison E variables c"
    by (simp add: executeComparison_lev_eq)
  then have "every (executeComparison_lev E variables) cs = every (executeComparison E variables) cs"
    "some (executeComparison_lev E variables) cs = some (executeComparison E variables) cs"
    by (auto intro: every_cong_set some_cong_set)
  with Some show ?thesis by (simp add: executeCondition_def executeCondition_lev_def)
qed

lemma variants_agree_example:
  "executeCondition_lev sampleRuntime
     \<lparr>logicalOperator = Some AND, comparisons = Some
       [\<lparr>variableId = Some ''v'', comparisonOperator = Some EQUAL, value_c = Some ''abc''\<rparr>,
        \<lparr>variableId = Some ''v'', comparisonOperator = Some MATCHES_REGEX, value_c = Some ''(''\<rparr>]\<rparr>
     [\<lparr>id_v = ''v'', value_v = Some (Str ''abc'')\<rparr>]
   = executeCondition sampleRuntime
     \<lparr>logicalOperator = Some AND, comparisons = Some
       [\<lparr>variableId = Some ''v'', comparisonOperator = Some EQUAL, value_c = Some ''abc''\<rparr>,
        \<lparr>variableId = Some ''v'', comparisonOperator = Some MATCHES_REGEX, value_c = Some ''(''\<rparr>]\<rparr>
     [\<lparr>id_v = ''v'', value_v = Some (Str ''abc'')\<rparr>]"
  by (rule variants_agree_without_similarity) simp

text \<open>
  On STRING_SIMILARITY the variants differ by their score and its threshold: the input
  \<^verbatim>\<open>ab\<close> and the target \<^verbatim>\<open>ba\<close> have the same character counts (cosine 0.9999999999999998
  in doubles, above 0.5) and the Levenshtein distance 2 (score 0, not above 0.8).
\<close>

lemma bag_ab: "getBagOfNumbers sampleRuntime ''ab'' = [(CHR ''a'', 1), (CHR ''b'', 1)]"
  by (simp add: bag_defs)

lemma bag_ba: "getBagOfNumbers sampleRuntime ''ba'' = [(CHR ''b'', 1), (CHR ''a'', 1)]"
  by (simp add: bag_defs)

lemma cosine_ab_ba:
  "compareStringsBagOfNumbers sampleRuntime ''ab'' ''ba'' = Fin (9007199254740990 / 2 ^ 53)"
proof -
  have ks: "ownKeys (foldl (\<lambda>obj c. setKey c True obj)
              (foldl (\<lambda>obj c. setKey c True obj) []
                 (ownKeys [(CHR ''a'', 1::nat), (CHR ''b'', 1)]))
              (ownKeys [(CHR ''b'', 1::nat), (CHR ''a'', 1)])) = ''ab''"
    by (simp add: ownKeys_def isIndexKey_def)
  have v1: "map (countOf [(CHR ''a'', 1), (CHR ''b'', 1)]) ''ab'' = [1, 1]"
    by (simp add: countOf_def)
  have v2: "map (countOf [(CHR ''b'', 1), (CHR ''a'', 1)]) ''ab'' = [1, 1]"
    by (simp add: countOf_def)
  have a: "foldl squareStep 0 [1, 1] = 2"
    by (simp add: squareStep_def)
  have d: "foldl dotStep 0 (zip [1, 1] [1, 1]) = 2"
    by (simp add: dotStep_def)
  have "compareStringsBagOfNumbers sampleRuntime ''ab'' ''ba''
          = js_divide 2 (fl (fl (sqrt 2) * fl (sqrt 2)))"
    by (rule cosine_from_bags[OF bag_ab bag_ba ks v1 v2 a a d]) simp_all
  then show ?thesis by (simp only: score_2_2_2)
qed

lemma lev_score_ab_ba: "compareStringsBagOfNumbers_lev ''ab'' ''ba'' = Fin 0"
proof -
  have "levenshtein ''ab'' ''ba'' = 2"
    by (simp add: lev_defs)
  then show ?thesis
    by (simp add: compareStringsBagOfNumbers_lev_def js_div_def)
qed

lemma variants_differ_by_metric:
  "executeCondition sampleRuntime
     \<lparr>logicalOperator = Some AND, comparisons = Some
       [\<lparr>variableId = Some ''v'', comparisonOperator = Some STRING_SIMILARITY,
         value_c = Some ''ba''\<rparr>]\<rparr>
     [\<lparr>id_v = ''v'', value_v = Some (Str ''ab'')\<rparr>] = Inr True"
  "executeCondition_lev sampleRuntime
     \<lparr>logicalOperator = Some AND, comparisons = Some
       [\<lparr>variableId = Some ''v'', comparisonOperator = Some STRING_SIMILARITY,
         value_c = Some ''ba''\<rparr>]\<rparr>
     [\<lparr>id_v = ''v'', value_v = Some (Str ''ab'')\<rparr>] = Inr False"
proof -
  have r: "resolveValue sampleRuntime vs (Some ''ba'') = Str ''ba''" for vs
    by (simp add: resolveValue_def sampleRuntime_def)
  show "executeCondition sampleRuntime
     \<lparr>logicalOperator = Some AND, comparisons = Some
       [\<lparr>variableId = Some ''v'', comparisonOperator = Some STRING_SIMILARITY,
         value_c = Some ''ba''\<rparr>]\<rparr>
     [\<lparr>id_v = ''v'', value_v = Some (Str ''ab'')\<rparr>] = Inr True"
    by (simp add: executeCondition_def executeComparison_def resolveInputValue_def r
          stringSimilarity_exceeds cosine_ab_ba)
  show "executeCondition_lev sampleRuntime
     \<lparr>logicalOperator = Some AND, comparisons = Some
       [\<lparr>variableId = Some ''v'', comparisonOperator = Some STRING_SIMILARITY,
         value_c = Some ''ba''\<rparr>]\<rparr>
     [\<lparr>id_v = ''v'', value_v = Some (Str ''ab'')\<rparr>] = Inr False"
    by (simp add: executeCondition_lev_def executeComparison_lev_def resolveInputValue_def r
          compararValores_exceeds lev_score_ab_ba)
qed

text \<open>
  C8: the variants are to differ in the metric and the threshold of STRING_SIMILARITY
  only. The code of \<^verbatim>\<open>executeCondition.ts\<close> does not meet this. With the variable \<^verbatim>\<open>v\<close> bound
  to \<^verbatim>\<open>"abc"\<close> and one comparison of \<^verbatim>\<open>v\<close> by STRING_SIMILARITY whose right-hand side is
  \<^verbatim>\<open>"null"\<close>, which \<^verbatim>\<open>executeComparison\<close> turns into \<^verbatim>\<open>null\<close>, no score is computed and no
  threshold is read, and the results differ: \<^verbatim>\<open>compararValores\<close> of \<^verbatim>\<open>part_000\<close> tests
  \<^verbatim>\<open>value && typeof value === "string"\<close> before it splits the right-hand side and returns
  \<open>False\<close>; the case of \<^verbatim>\<open>executeCondition.ts\<close> calls \<^verbatim>\<open>value.split("|")\<close> without that test,
  and the call on \<^verbatim>\<open>null\<close> raises a \<^verbatim>\<open>TypeError\<close>.
\<close>

theorem variants_diverge_on_null_target:
  "executeCondition sampleRuntime
     \<lparr>logicalOperator = Some AND, comparisons = Some
       [\<lparr>variableId = Some ''v'', comparisonOperator = Some STRING_SIMILARITY,
         value_c = Some ''null''\<rparr>]\<rparr>
     [\<lparr>id_v = ''v'', value_v = Some (Str ''abc'')\<rparr>] = Inl TypeError \<and>
   executeCondition_lev sampleRuntime
     \<lparr>logicalOperator = Some AND, comparisons = Some
       [\<lparr>variableId = Some ''v'', comparisonOperator = Some STRING_SIMILARITY,
         value_c = Some ''null''\<rparr>]\<rparr>
     [\<lparr>id_v = ''v'', value_v = Some (Str ''abc'')\<rparr>] = Inr False"
  by (simp add: executeCondition_def executeCondition_lev_def executeComparison_def
        executeComparison_lev_def resolveInputValue_def resolveValue_def
        stringSimilarity_def compararValores_def)

subsection \<open>C9: IS_SET and IS_EMPTY\<close>

text \<open>
  C9: for a comparison that names a variable, IS_SET and IS_EMPTY both return a boolean
  and the one is the negation of the other, whatever the value of the variable is (a
  string, an array, \<^verbatim>\<open>null\<close>, or no binding at all), in both variants.
\<close>

theorem is_set_is_empty_complement:
  "\<not> falsy (variableId c) \<Longrightarrow>
     (\<exists>r. executeComparison E variables (c\<lparr>comparisonOperator := Some IS_SET\<rparr>) = Inr r \<and>
          executeComparison E variables (c\<lparr>comparisonOperator := Some IS_EMPTY\<rparr>) = Inr (\<not> r)) \<and>
     (\<exists>r. executeComparison_lev E variables (c\<lparr>comparisonOperator := Some IS_SET\<rparr>) = Inr r \<and>
          executeComparison_lev E variables (c\<lparr>comparisonOperator := Some IS_EMPTY\<rparr>) = Inr (\<not> r))"
  by (auto simp: executeComparison_def executeComparison_lev_def isDefined_def isNotDefined_def)

theorem is_set_is_empty_complement_witness:
  "\<not> falsy (Some ''v'') \<and>
   executeComparison sampleRuntime
     [\<lparr>id_v = ''u'', value_v = Some (Str [])\<rparr>, \<lparr>id_v = ''v'', value_v = Some (Arr [''a''])\<rparr>]
     \<lparr>variableId = Some ''v'', comparisonOperator = Some IS_SET, value_c = None\<rparr> = Inr True \<and>
   executeComparison sampleRuntime
     [\<lparr>id_v = ''u'', value_v = Some (Str [])\<rparr>, \<lparr>id_v = ''v'', value_v = Some (Arr [''a''])\<rparr>]
     \<lparr>variableId = Some ''v'', comparisonOperator = Some IS_EMPTY, value_c = None\<rparr> = Inr False"
proof -
  let ?vs = "[\<lparr>id_v = ''u'', value_v = Some (Str [])\<rparr>, \<lparr>id_v = ''v'', value_v = Some (Arr [''a''])\<rparr>]"
  let ?c = "\<lparr>variableId = Some ''v'', comparisonOperator = Some IS_SET, value_c = None\<rparr>"
  have s: "executeComparison sampleRuntime ?vs ?c = Inr True"
    by (simp add: executeComparison_def resolveInputValue_def isDefined_def)
  have h: "\<not> falsy (variableId ?c)" by simp
  from is_set_is_empty_complement[OF h, of sampleRuntime ?vs] s show ?thesis
    by auto
qed

subsection \<open>C10: every logical operator but AND is OR\<close>

text \<open>
  What \<^verbatim>\<open>some\<close> computes: it is \<open>True\<close> exactly when some element is \<open>True\<close> and all
  elements before it are \<open>False\<close> (none of them threw).
\<close>

lemma some_true_iff:
  "some f xs = Inr True \<longleftrightarrow>
     (\<exists>i<length xs. f (xs ! i) = Inr True \<and> (\<forall>j<i. f (xs ! j) = Inr False))"
proof (induction xs)
  case Nil
  then show ?case by simp
next
  case (Cons x xs)
  show ?case
  proof (cases "f x")
    case (Inl e)
    have "\<not> (\<exists>i<length (x # xs). f ((x # xs) ! i) = Inr True \<and> (\<forall>j<i. f ((x # xs) ! j) = Inr False))"
    proof
      assume "\<exists>i<length (x # xs). f ((x # xs) ! i) = Inr True \<and> (\<forall>j<i. f ((x # xs) ! j) = Inr False)"
      then obtain i where i: "f ((x # xs) ! i) = Inr True" "\<forall>j<i. f ((x # xs) ! j) = Inr False" by blast
      show False
      proof (cases i)
        case 0
        with i Inl show False by simp
      next
        case (Suc k)
        with i(2) have "f ((x # xs) ! 0) = Inr False" by blast
        with Inl show False by simp
      qed
    qed
    with Inl show ?thesis by simp
  next
    case (Inr b)
    show ?thesis
    proof (cases b)
      case True
      with Inr have "f ((x # xs) ! 0) = Inr True \<and> (\<forall>j<0. f ((x # xs) ! j) = Inr False)" by simp
      then have "\<exists>i<length (x # xs). f ((x # xs) ! i) = Inr True \<and> (\<forall>j<i. f ((x # xs) ! j) = Inr False)"
        by (intro exI[of _ 0]) simp
      with Inr True show ?thesis by simp
    next
      case False
      have "(\<exists>i<length xs. f (xs ! i) = Inr True \<and> (\<forall>j<i. f (xs ! j) = Inr False)) \<longleftrightarrow>
            (\<exists>i<length (x # xs). f ((x # xs) ! i) = Inr True \<and> (\<forall>j<i. f ((x # xs) ! j) = Inr False))"
        (is "?L \<longleftrightarrow> ?R")
      proof
        assume ?L
        then obtain i where i: "i < length xs" "f (xs ! i) = Inr True" "\<forall>j<i. f (xs ! j) = Inr False"
          by blast
        have "\<forall>j<Suc i. f ((x # xs) ! j) = Inr False"
        proof (intro allI impI)
          fix j assume "j < Suc i"
          then show "f ((x # xs) ! j) = Inr False"
            using i(3) Inr False by (cases j) auto
        qed
        with i show ?R by (intro exI[of _ "Suc i"]) simp
      next
        assume ?R
        then obtain i where i: "i < length (x # xs)" "f ((x # xs) ! i) = Inr True"
          "\<forall>j<i. f ((x # xs) ! j) = Inr False" by blast
        from i(2) Inr False obtain k where k: "i = Suc k" by (cases i) auto
        have "\<forall>j<k. f (xs ! j) = Inr False"
        proof (intro allI impI)
          fix j assume "j < k"
          then have "Suc j < i" using k by simp
          with i(3) have "f ((x # xs) ! Suc j) = Inr False" by blast
          then show "f (xs ! j) = Inr False" by simp
        qed
        with i k show ?L by (intro exI[of _ k]) simp
      qed
      with Inr False Cons.IH show ?thesis by simp
    qed
  qed
qed

text \<open>
  C10: a condition with a list of comparisons whose logical operator is not AND (OR, or
  no operator at all) is evaluated by \<^verbatim>\<open>some\<close>: it is \<open>True\<close> exactly when a comparison is
  \<open>True\<close> and those before it are \<open>False\<close>; when no comparison throws, it is \<open>True\<close>
  exactly when at least one comparison is \<open>True\<close>.
\<close>

theorem executeCondition_or_by_default:
  "logicalOperator condition \<noteq> Some AND \<Longrightarrow> comparisons condition = Some cs \<Longrightarrow>
     (executeCondition E condition variables = Inr True \<longleftrightarrow>
        (\<exists>i<length cs. executeComparison E variables (cs ! i) = Inr True \<and>
           (\<forall>j<i. executeComparison E variables (cs ! j) = Inr False))) \<and>
     ((\<forall>c\<in>set cs. \<exists>r. executeComparison E variables c = Inr r) \<longrightarrow>
        executeCondition E condition variables
          = Inr (\<exists>c\<in>set cs. executeComparison E variables c = Inr True))"
proof (intro conjI impI)
  assume h: "logicalOperator condition \<noteq> Some AND" "comparisons condition = Some cs"
  then have e: "executeCondition E condition variables = some (executeComparison E variables) cs"
    by (simp add: executeCondition_def)
  show "executeCondition E condition variables = Inr True \<longleftrightarrow>
        (\<exists>i<length cs. executeComparison E variables (cs ! i) = Inr True \<and>
           (\<forall>j<i. executeComparison E variables (cs ! j) = Inr False))"
    unfolding e by (rule some_true_iff)
  assume "\<forall>c\<in>set cs. \<exists>r. executeComparison E variables c = Inr r"
  then show "executeCondition E condition variables
          = Inr (\<exists>c\<in>set cs. executeComparison E variables c = Inr True)"
    unfolding e by (intro some_no_throw) blast
qed

theorem executeCondition_or_by_default_witness:
  "logicalOperator \<lparr>logicalOperator = None, comparisons = Some
       [\<lparr>variableId = Some ''v'', comparisonOperator = Some IS_EMPTY, value_c = None\<rparr>,
        \<lparr>variableId = Some ''v'', comparisonOperator = Some IS_SET, value_c = None\<rparr>]\<rparr> \<noteq> Some AND \<and>
   executeCondition sampleRuntime
     \<lparr>logicalOperator = None, comparisons = Some
       [\<lparr>variableId = Some ''v'', comparisonOperator = Some IS_EMPTY, value_c = None\<rparr>,
        \<lparr>variableId = Some ''v'', comparisonOperator = Some IS_SET, value_c = None\<rparr>]\<rparr>
     [\<lparr>id_v = ''v'', value_v = Some (Str ''abc'')\<rparr>] = Inr True"
proof -
  let ?vs = "[\<lparr>id_v = ''v'', value_v = Some (Str ''abc'')\<rparr>]"
  let ?c1 = "\<lparr>variableId = Some ''v'', comparisonOperator = Some IS_EMPTY, value_c = None\<rparr>"
  let ?c2 = "\<lparr>variableId = Some ''v'', comparisonOperator = Some IS_SET, value_c = None\<rparr>"
  let ?cond = "\<lparr>logicalOperator = None, comparisons = Some [?c1, ?c2]\<rparr>"
  have c: "executeComparison sampleRuntime ?vs ?c1 = Inr False"
    "executeComparison sampleRuntime ?vs ?c2 = Inr True"
    by (simp_all add: executeComparison_def resolveInputValue_def isDefined_def isNotDefined_def)
  have h: "logicalOperator ?cond \<noteq> Some AND" "comparisons ?cond = Some [?c1, ?c2]"
    by simp_all
  from executeCondition_or_by_default[OF h, of sampleRuntime ?vs] c show ?thesis
    by auto
qed

end
